theory Spec2Isabelle
  imports Main
begin

section \<open>JavaScript strings\<close>

text \<open>
  A JavaScript string is modelled as a \<^typ>\<open>string\<close>: a list of code units, here restricted
  to the range 0..255 (Latin-1).  \<open>length\<close> counts code units, as \<open>String.prototype.length\<close>
  does.  In that range the white space of ECMAScript (the class \<open>\s\<close> of a regular
  expression, and what \<open>trim\<close> strips) is TAB, LF, VT, FF, CR, SP and NBSP.
\<close>

definition isWhiteSpace :: "char \<Rightarrow> bool" where
  "isWhiteSpace c = (of_char c \<in> {9, 10, 11, 12, 13, 32, 160 :: nat})"

text \<open>\<open>String.prototype.trim\<close>: strips white space from both ends.\<close>

definition trim :: "string \<Rightarrow> string" where
  "trim s = rev (dropWhile isWhiteSpace (rev (dropWhile isWhiteSpace s)))"

text \<open>
  \<open>String.prototype.toLowerCase\<close> on Latin-1 code units: A..Z and the accented capitals
  0xC0..0xDE (but not the multiplication sign 0xD7) move up by 32.
\<close>

definition lowerChar :: "char \<Rightarrow> char" where
  "lowerChar c =
     (let n = (of_char c :: nat)
      in if (65 \<le> n \<and> n \<le> 90) \<or> (192 \<le> n \<and> n \<le> 222 \<and> n \<noteq> 215)
         then char_of (n + 32) else c)"

definition toLowerCase :: "string \<Rightarrow> string" where
  "toLowerCase s = map lowerChar s"

text \<open>\<open>String.prototype.includes\<close>: \<open>t\<close> occurs in \<open>s\<close> as a contiguous substring.\<close>

fun includes_str :: "string \<Rightarrow> string \<Rightarrow> bool" where
  "includes_str [] t = (t = [])"
| "includes_str (c # s) t = (take (length t) (c # s) = t \<or> includes_str s t)"

section \<open>Regular expressions\<close>

text \<open>
  The three patterns of the source are anchored sequences of quantified character
  classes.  A pattern is a list of items \<open>Rep cls lo hi\<close>: between \<open>lo\<close> and \<open>hi\<close>
  (unbounded when \<open>hi = None\<close>) characters of the class \<open>cls\<close>.  \<open>RegExp.prototype.test\<close>
  on a pattern written \<open>/^...$/\<close> holds when the whole string splits into consecutive
  blocks, one per item.
\<close>

datatype rx_item = Rep "char \<Rightarrow> bool" nat "nat option"

fun matches :: "rx_item list \<Rightarrow> string \<Rightarrow> bool" where
  "matches [] s = (s = [])"
| "matches (Rep cls lo hi # rs) s =
     list_ex (\<lambda>k. list_all cls (take k s) \<and> matches rs (drop k s))
       [lo ..< Suc (case hi of None \<Rightarrow> length s | Some h \<Rightarrow> min h (length s))]"

definition test :: "rx_item list \<Rightarrow> string \<Rightarrow> bool" where
  "test rx s = matches rx s"

text \<open>The class \<open>[^\s@]\<close>.\<close>

definition notSpaceAt :: "char \<Rightarrow> bool" where
  "notSpaceAt c = (\<not> isWhiteSpace c \<and> c \<noteq> CHR ''@'')"

text \<open>The class \<open>[a-zA-Z0-9._-]\<close>.\<close>

definition handleChar :: "char \<Rightarrow> bool" where
  "handleChar c =
     (let n = (of_char c :: nat)
      in (97 \<le> n \<and> n \<le> 122) \<or> (65 \<le> n \<and> n \<le> 90) \<or> (48 \<le> n \<and> n \<le> 57)
         \<or> c = CHR ''.'' \<or> c = CHR ''_'' \<or> c = CHR ''-'')"

text \<open>\<open>const emailPattern = /^[^\s@]+@[^\s@]+\.[^\s@]+$/;\<close>\<close>

definition emailPattern :: "rx_item list" where
  "emailPattern =
     [Rep notSpaceAt 1 None, Rep (\<lambda>c. c = CHR ''@'') 1 (Some 1),
      Rep notSpaceAt 1 None, Rep (\<lambda>c. c = CHR ''.'') 1 (Some 1),
      Rep notSpaceAt 1 None]"

text \<open>\<open>const usernamePattern = /^[a-zA-Z0-9._-]{3,30}$/;\<close>\<close>

definition usernamePattern :: "rx_item list" where
  "usernamePattern = [Rep handleChar 3 (Some 30)]"

section \<open>Login validation\<close>

record login_values =
  v_identifier :: string
  v_password :: string

text \<open>
  \<open>validateLogin\<close> returns the object \<open>nextErrors\<close>: a map from field name to message,
  where a missing key means the field is valid.
\<close>

definition validateLogin :: "login_values \<Rightarrow> (string \<rightharpoonup> string)" where
  "validateLogin values =
     (let nextErrors = Map.empty;
          ident = trim (v_identifier values);
          nextErrors =
            (if ident = [] then
               nextErrors(''identifier'' \<mapsto> ''Enter your email or username.'')
             else if includes_str ident ''@'' \<and> \<not> test emailPattern ident then
               nextErrors(''identifier'' \<mapsto> ''Enter a valid email address.'')
             else if \<not> includes_str ident ''@'' \<and> \<not> test usernamePattern ident then
               nextErrors(''identifier'' \<mapsto>
                 ''Use 3-30 letters, numbers, or ._- in your username.'')
             else nextErrors);
          nextErrors =
            (if v_password values = [] then nextErrors(''password'' \<mapsto> ''Password is required.'')
             else nextErrors)
      in nextErrors)"

text \<open>
  The handle pattern in the specification's words: 3 to 30 characters, each a letter,
  a digit, or one of \<open>.\<close>, \<open>_\<close>, \<open>-\<close>.
\<close>

definition isLetter :: "char \<Rightarrow> bool" where
  "isLetter c = (c \<in> set ''abcdefghijklmnopqrstuvwxyzABCDEFGHIJKLMNOPQRSTUVWXYZ'')"

definition isDigit :: "char \<Rightarrow> bool" where
  "isDigit c = (c \<in> set ''0123456789'')"

definition spec_handle :: "string \<Rightarrow> bool" where
  "spec_handle s =
     (3 \<le> length s \<and> length s \<le> 30 \<and>
      list_all (\<lambda>c. isLetter c \<or> isDigit c \<or> c \<in> set ''._-'') s)"

section \<open>Values\<close>

text \<open>
  The JavaScript values that the settings objects and the request bodies hold: strings,
  booleans and arrays of strings.
\<close>

datatype jsvalue = JString string | JBool bool | JArray "string list"

text \<open>\<open>a || b\<close> on a string that may be absent: the empty string is falsy too.\<close>

definition orElse :: "string option \<Rightarrow> string \<Rightarrow> string" where
  "orElse a b = (case a of Some (c # cs) \<Rightarrow> c # cs | _ \<Rightarrow> b)"

text \<open>\<open>a ?? b ?? c\<close>: only an absent value falls through.\<close>

definition nullish :: "'a option \<Rightarrow> 'a option \<Rightarrow> 'a \<Rightarrow> 'a" where
  "nullish a b c = (case a of Some x \<Rightarrow> x | None \<Rightarrow> (case b of Some y \<Rightarrow> y | None \<Rightarrow> c))"

section \<open>The API client's outcomes\<close>

text \<open>
  \<open>apiRequest\<close> either returns the parsed payload or throws an error object carrying
  \<open>status\<close>, \<open>message\<close> and \<open>data\<close> (with \<open>data.errors\<close>, a field-to-message object whose
  keys are kept in enumeration order, and \<open>data.detail\<close>).  An awaited call is modelled
  by its outcome, which the environment supplies.
\<close>

record api_error =
  err_status :: "nat option"
  err_message :: string
  err_errors :: "(string \<times> string) list option"
  err_detail :: "string option"

datatype 'a api_result = Resolved 'a | Rejected api_error

text \<open>
  A request as the client sends it: method, path, whether a token is attached, and
  the JSON body as the list of its properties (empty when there is none).
\<close>

datatype request = Request string string bool "(string \<times> jsvalue) list"

fun isMutating :: "request \<Rightarrow> bool" where
  "isMutating (Request m p t b) = (m \<noteq> ''GET'')"

definition truncateMessage :: "string \<Rightarrow> string" where
  "truncateMessage message =
     (if message = [] then []
      else if length message > 120 then take (120 - 3) message @ ''...'' else message)"

definition shortMessageFromError :: "api_error \<Rightarrow> string" where
  "shortMessageFromError error =
     (case (case err_errors error of
              Some ((firstKey, v) # rest) \<Rightarrow>
                (if firstKey \<noteq> [] \<and> v \<noteq> [] then Some (truncateMessage v) else None)
            | _ \<Rightarrow> None) of
        Some m \<Rightarrow> m
      | None \<Rightarrow>
         (case err_detail error of
            Some (c # d) \<Rightarrow> truncateMessage (c # d)
          | _ \<Rightarrow>
            (if err_message error \<noteq> [] then truncateMessage (err_message error)
             else ''Something went wrong. Please try again.'')))"

section \<open>Toast signaling\<close>

text \<open>
  The hook \<open>useToast\<close> keeps the toast (\<open>useState\<close>) and the id of the last timer it
  started (\<open>timerRef\<close>).  The browser's side is modelled with it: the pending timeouts
  (id and due time in milliseconds; every callback the hook registers is
  \<open>() => setToast(null)\<close>), the next id \<open>setTimeout\<close> hands out (ids are positive), and
  the clock.
\<close>

record toast =
  toast_message :: string
  toast_type :: string

record toast_state =
  toast :: "toast option"
  timerRef :: "nat option"
  timers :: "(nat \<times> nat) list"
  nextTimerId :: nat
  now :: nat

definition toast_init :: toast_state where
  "toast_init = \<lparr>toast = None, timerRef = None, timers = [], nextTimerId = 1, now = 0\<rparr>"

definition clearTimeout :: "nat \<Rightarrow> toast_state \<Rightarrow> toast_state" where
  "clearTimeout t st = st\<lparr>timers := filter (\<lambda>(i, due). i \<noteq> t) (timers st)\<rparr>"

definition setTimeout :: "nat \<Rightarrow> toast_state \<Rightarrow> nat \<times> toast_state" where
  "setTimeout delay st =
     (nextTimerId st,
      st\<lparr>timers := timers st @ [(nextTimerId st, now st + delay)],
         nextTimerId := Suc (nextTimerId st)\<rparr>)"

definition showToast :: "string \<Rightarrow> string \<Rightarrow> toast_state \<Rightarrow> toast_state" where
  "showToast message type st =
     (let st1 = st\<lparr>toast := Some \<lparr>toast_message = message, toast_type = type\<rparr>\<rparr>;
          st2 = (case timerRef st1 of
                   Some t \<Rightarrow> if t \<noteq> 0 then clearTimeout t st1 else st1
                 | None \<Rightarrow> st1);
          (t', st3) = setTimeout 3200 st2
      in st3\<lparr>timerRef := Some t'\<rparr>)"

text \<open>
  Time passes by \<open>d\<close> milliseconds: every timeout that has come due fires (its callback
  clears the toast) and leaves the pending list.
\<close>

definition elapse :: "nat \<Rightarrow> toast_state \<Rightarrow> toast_state" where
  "elapse d st =
     (let t = now st + d;
          due = filter (\<lambda>(i, w). w \<le> t) (timers st);
          st1 = st\<lparr>now := t, timers := filter (\<lambda>(i, w). \<not> w \<le> t) (timers st)\<rparr>
      in if due = [] then st1 else st1\<lparr>toast := None\<rparr>)"

datatype toast_event = Show string string | Elapse nat

fun toast_step :: "toast_state \<Rightarrow> toast_event \<Rightarrow> toast_state" where
  "toast_step st (Show message type) = showToast message type st"
| "toast_step st (Elapse d) = elapse d st"

definition toast_run :: "toast_event list \<Rightarrow> toast_state" where
  "toast_run evs = foldl toast_step toast_init evs"

text \<open>
  The invariant of the hook together with the browser's timers: at most one timeout is
  pending, and it is the one \<open>timerRef\<close> names.
\<close>

definition toast_inv :: "toast_state \<Rightarrow> bool" where
  "toast_inv st \<longleftrightarrow> nextTimerId st \<noteq> 0 \<and>
     (timers st = [] \<or> (\<exists>t w. timers st = [(t, w)] \<and> timerRef st = Some t \<and> t \<noteq> 0))"

section \<open>Session store: logout\<close>

text \<open>
  The user object the server sends, with the properties \<open>mapUserToProfile\<close> reads; each
  may be absent (\<open>None\<close> stands for \<open>undefined\<close> and \<open>null\<close>).
\<close>

record user_json =
  u_name :: "string option"
  u_username :: "string option"
  u_profile_url :: "string option"
  u_profileUrl :: "string option"
  u_status :: "string option"
  u_bio :: "string option"
  u_location :: "string option"
  u_interests :: "string list option"
  u_photo_url :: "string option"
  u_photoUrl :: "string option"
  u_visibility :: "string option"
  u_theme :: "string option"
  u_show_location :: "bool option"
  u_showLocation :: "bool option"
  u_allow_search :: "bool option"
  u_allowSearch :: "bool option"

text \<open>
  \<open>localStorage\<close> is a map from key to stored text; \<open>console_log\<close> collects what
  \<open>console.error\<close> printed; \<open>sent\<close> collects the requests issued, in order.
\<close>

record auth_state =
  token :: string
  user :: "user_json option"
  localStorage :: "string \<rightharpoonup> string"
  console_log :: "string list"
  sent :: "request list"

definition AUTH_STORAGE_KEY :: string where
  "AUTH_STORAGE_KEY = ''profilespaces-auth''"

definition clearAuth :: "auth_state \<Rightarrow> auth_state" where
  "clearAuth st = st\<lparr>token := [], user := None,
                      localStorage := (localStorage st)(AUTH_STORAGE_KEY := None)\<rparr>"

text \<open>
  \<open>logout\<close>: the server is notified only when a token is held; \<open>outcome\<close> is how that
  request ends.  The \<open>catch\<close> logs, the \<open>finally\<close> clears.
\<close>

definition logout :: "unit api_result \<Rightarrow> auth_state \<Rightarrow> auth_state" where
  "logout outcome st =
     (let st1 =
        (if token st \<noteq> [] then
           (let st' = st\<lparr>sent := sent st @ [Request ''POST'' ''/auth/logout/'' True []]\<rparr>
            in case outcome of
                 Resolved u \<Rightarrow> st'
               | Rejected error \<Rightarrow> st'\<lparr>console_log := console_log st' @ [''Logout failed'']\<rparr>)
         else st)
      in clearAuth st1)"

section \<open>Settings: saved and draft values\<close>

text \<open>
  The six settings sections.  \<open>activeSection\<close> only ever holds one of the ids of
  \<open>settingsSections\<close> (it is set through \<open>resolveSection\<close> and \<open>applySection\<close>, which both
  check membership in \<open>settingsSectionIds\<close>), so a section id is a value of this type.
\<close>

datatype section_id = Account | Profile | Privacy | Notifications | Appearance | Help

text \<open>
  The object held in \<open>saved\<close> and in \<open>draft\<close> (built by \<open>buildDefaults\<close>), with the types the
  data model gives its fields.
\<close>

record settings_values =
  displayName :: string
  username :: string
  profileUrl :: string
  bio :: string
  location :: string
  interests :: "string list"
  status :: string
  photoUrl :: string
  visibility :: string
  showLocation :: bool
  allowSearch :: bool
  emailNotifications :: bool
  productUpdates :: bool
  newFollowerAlerts :: bool
  weeklyDigest :: bool
  pauseNotifications :: string
  theme :: string

text \<open>
  \<open>saved[field]\<close>: property access by name; a name that is not a property gives
  \<open>undefined\<close>, here \<open>None\<close>.
\<close>

definition getField :: "settings_values \<Rightarrow> string \<Rightarrow> jsvalue option" where
  "getField v field =
     (if field = ''displayName'' then Some (JString (displayName v))
      else if field = ''username'' then Some (JString (username v))
      else if field = ''profileUrl'' then Some (JString (profileUrl v))
      else if field = ''bio'' then Some (JString (bio v))
      else if field = ''location'' then Some (JString (location v))
      else if field = ''interests'' then Some (JArray (interests v))
      else if field = ''status'' then Some (JString (status v))
      else if field = ''photoUrl'' then Some (JString (photoUrl v))
      else if field = ''visibility'' then Some (JString (visibility v))
      else if field = ''showLocation'' then Some (JBool (showLocation v))
      else if field = ''allowSearch'' then Some (JBool (allowSearch v))
      else if field = ''emailNotifications'' then Some (JBool (emailNotifications v))
      else if field = ''productUpdates'' then Some (JBool (productUpdates v))
      else if field = ''newFollowerAlerts'' then Some (JBool (newFollowerAlerts v))
      else if field = ''weeklyDigest'' then Some (JBool (weeklyDigest v))
      else if field = ''pauseNotifications'' then Some (JString (pauseNotifications v))
      else if field = ''theme'' then Some (JString (theme v))
      else None)"

subsection \<open>\<open>JSON.stringify\<close>\<close>

text \<open>
  \<open>JSON.stringify\<close> on these values, following ECMAScript's \<open>QuoteJSONString\<close>: the
  double quote and the backslash are escaped, the control characters below 0x20 are
  written \<open>\b\<close>, \<open>\t\<close>, \<open>\n\<close>, \<open>\f\<close>, \<open>\r\<close> or \<open>\u00XX\<close> with lower-case hexadecimal digits, and
  every other code unit stands for itself.  An array is its elements between brackets,
  separated by commas.  \<open>JSON.stringify(undefined)\<close> is \<open>undefined\<close>.
\<close>

definition hexDigit :: "nat \<Rightarrow> char" where
  "hexDigit n = (if n < 10 then char_of (48 + n) else char_of (87 + n))"

definition escapeChar :: "char \<Rightarrow> string" where
  "escapeChar c =
     (let n = (of_char c :: nat)
      in if n = 8 then [CHR 0x5C, CHR ''b'']
         else if n = 9 then [CHR 0x5C, CHR ''t'']
         else if n = 10 then [CHR 0x5C, CHR ''n'']
         else if n = 12 then [CHR 0x5C, CHR ''f'']
         else if n = 13 then [CHR 0x5C, CHR ''r'']
         else if n = 34 then [CHR 0x5C, CHR 0x22]
         else if n = 92 then [CHR 0x5C, CHR 0x5C]
         else if n < 32 then [CHR 0x5C, CHR ''u'', CHR ''0'', CHR ''0'',
                              hexDigit (n div 16), hexDigit (n mod 16)]
         else [c])"

definition quoteJSONString :: "string \<Rightarrow> string" where
  "quoteJSONString s = CHR 0x22 # concat (map escapeChar s) @ [CHR 0x22]"

fun arrayTail :: "string list \<Rightarrow> string" where
  "arrayTail [] = '']''"
| "arrayTail (x # xs) = '','' @ quoteJSONString x @ arrayTail xs"

fun serializeArray :: "string list \<Rightarrow> string" where
  "serializeArray [] = ''[]''"
| "serializeArray (x # xs) = ''['' @ quoteJSONString x @ arrayTail xs"

fun JSON_stringify :: "jsvalue option \<Rightarrow> string option" where
  "JSON_stringify None = None"
| "JSON_stringify (Some (JString s)) = Some (quoteJSONString s)"
| "JSON_stringify (Some (JBool b)) = Some (if b then ''true'' else ''false'')"
| "JSON_stringify (Some (JArray xs)) = Some (serializeArray xs)"

text \<open>
  Reading one escaped character back, used to show that the escaping loses nothing.
\<close>

definition hexValue :: "char \<Rightarrow> nat" where
  "hexValue h = (let m = (of_char h :: nat) in if m < 58 then m - 48 else m - 87)"

fun unescapeChar :: "string \<Rightarrow> (char \<times> string) option" where
  "unescapeChar [] = None"
| "unescapeChar (c # r) =
     (if c \<noteq> CHR 0x5C then Some (c, r)
      else (case r of
              [] \<Rightarrow> None
            | x # r1 \<Rightarrow>
               if x = CHR ''b'' then Some (CHR 0x08, r1)
               else if x = CHR ''t'' then Some (CHR 0x09, r1)
               else if x = CHR ''n'' then Some (CHR 0x0A, r1)
               else if x = CHR ''f'' then Some (CHR 0x0C, r1)
               else if x = CHR ''r'' then Some (CHR 0x0D, r1)
               else if x = CHR ''u'' then
                 (case r1 of
                    a # b # h1 # h2 # r2 \<Rightarrow> Some (char_of (16 * hexValue h1 + hexValue h2), r2)
                  | _ \<Rightarrow> None)
               else Some (x, r1)))"

subsection \<open>The section field map\<close>

definition sectionFieldMap :: "section_id \<rightharpoonup> string list" where
  "sectionFieldMap =
     [Profile \<mapsto> [''displayName'', ''username'', ''profileUrl'', ''bio'', ''location'',
                  ''interests'', ''status'', ''photoUrl''],
      Privacy \<mapsto> [''visibility'', ''showLocation'', ''allowSearch''],
      Notifications \<mapsto> [''emailNotifications'', ''productUpdates'', ''newFollowerAlerts'',
                        ''weeklyDigest'', ''pauseNotifications''],
      Appearance \<mapsto> [''theme'']]"

section \<open>The settings page\<close>

datatype avail_field = Username | ProfileUrl

datatype avail_status = Neutral | Success | Error

text \<open>
  \<open>pendingSection\<close> holds \<open>null\<close>, a section id, \<open>"back"\<close> or \<open>"list"\<close>.
\<close>

datatype pending = ToSection section_id | ToBack | ToList

record password_draft =
  pd_current :: string
  pd_next :: string
  pd_confirm :: string

record email_draft =
  ed_email :: string
  ed_password :: string

text \<open>
  The state of \<open>SettingsPage\<close>: the auth context it reads (\<open>token\<close>, \<open>user\<close>), its
  \<open>useState\<close> cells and its refs.  Around it: \<open>isMobile\<close> (the media query),
  \<open>searchTab\<close> (the \<open>tab\<close> search parameter), \<open>route\<close> (where \<open>navigate\<close> last went),
  \<open>activeElement\<close> (\<open>document.activeElement\<close>, DOM nodes being numbered), \<open>toastLog\<close>
  (the calls of \<open>showToast\<close>, in order) and \<open>scheduled\<close> (callbacks handed to
  \<open>setTimeout\<close> by \<open>handleSave\<close>: the delay and the draft they captured).  An error
  object such as \<open>profileErrors\<close> is the list of its properties, in insertion order.
  \<open>notificationsLoaded\<close> is the cell of that name.
\<close>

record page_state = auth_state +
  isMobile :: bool
  activeSection :: section_id
  showMobileList :: bool
  searchTab :: "section_id option"
  route :: string
  pendingSection :: "pending option"
  discardOpen :: bool
  isSaving :: bool
  profileErrors :: "(string \<times> string) list"
  interestInput :: string
  availability :: "avail_field \<Rightarrow> avail_status"
  availabilityRequestRef :: "avail_field \<Rightarrow> nat"
  passwordDraft :: password_draft
  emailDraft :: email_draft
  saved :: settings_values
  draft :: settings_values
  lastActiveElement :: "nat option"
  activeElement :: "nat option"
  toastLog :: "(string \<times> string) list"
  scheduled :: "(nat \<times> settings_values) list"
  notificationsLoaded :: bool

definition pageToast :: "string \<Rightarrow> string \<Rightarrow> page_state \<Rightarrow> page_state" where
  "pageToast message type st = st\<lparr>toastLog := toastLog st @ [(message, type)]\<rparr>"

subsection \<open>Dirtiness\<close>

definition hasSectionChanges :: "section_id \<Rightarrow> page_state \<Rightarrow> bool" where
  "hasSectionChanges sectionId st =
     (let fields = (case sectionFieldMap sectionId of Some fs \<Rightarrow> fs | None \<Rightarrow> [])
      in list_ex (\<lambda>field. JSON_stringify (getField (saved st) field)
                          \<noteq> JSON_stringify (getField (draft st) field)) fields)"

subsection \<open>Navigation between sections\<close>

text \<open>
  \<open>rememberFocus(event)\<close> stores \<open>event?.currentTarget || document.activeElement\<close>;
  \<open>restoreFocus\<close> focuses the stored element when there is one.
\<close>

definition rememberFocus :: "nat option \<Rightarrow> page_state \<Rightarrow> page_state" where
  "rememberFocus currentTarget st =
     st\<lparr>lastActiveElement :=
          (case currentTarget of Some e \<Rightarrow> Some e | None \<Rightarrow> activeElement st)\<rparr>"


definition applySection :: "section_id \<Rightarrow> page_state \<Rightarrow> page_state" where
  "applySection sectionId st =
     (let st1 = st\<lparr>activeSection := sectionId, searchTab := Some sectionId\<rparr>
      in if isMobile st then st1\<lparr>showMobileList := False\<rparr> else st1)"

definition handleSectionChange :: "section_id \<Rightarrow> page_state \<Rightarrow> page_state" where
  "handleSectionChange sectionId st =
     (if sectionId = activeSection st then
        (if isMobile st then st\<lparr>showMobileList := False\<rparr> else st)
      else if hasSectionChanges (activeSection st) st then
        (rememberFocus None st)\<lparr>pendingSection := Some (ToSection sectionId),
                                  discardOpen := True\<rparr>
      else applySection sectionId st)"



definition handleBackToList :: "page_state \<Rightarrow> page_state" where
  "handleBackToList st =
     (if hasSectionChanges (activeSection st) st then
        (rememberFocus None st)\<lparr>pendingSection := Some ToList, discardOpen := True\<rparr>
      else st\<lparr>pendingSection := None, showMobileList := True, searchTab := None\<rparr>)"

text \<open>The \<open>onClick\<close> of the top bar's back button; \<open>target\<close> is the button.\<close>

definition handleBackClick :: "nat \<Rightarrow> page_state \<Rightarrow> page_state" where
  "handleBackClick target st =
     (if hasSectionChanges (activeSection st) st then
        (rememberFocus (Some target) st)\<lparr>pendingSection := Some ToBack, discardOpen := True\<rparr>
      else st\<lparr>route := ''/profile''\<rparr>)"

definition neutralAvailability :: "avail_field \<Rightarrow> avail_status" where
  "neutralAvailability = (\<lambda>field. Neutral)"


definition handleCancel :: "page_state \<Rightarrow> page_state" where
  "handleCancel st =
     st\<lparr>draft := saved st, profileErrors := [], interestInput := [],
        availability := neutralAvailability\<rparr>"


subsection \<open>Availability of a username or profile URL\<close>

definition RESERVED_HANDLES :: "string list" where
  "RESERVED_HANDLES = [''admin'', ''support'', ''profilespaces'', ''profile'', ''settings'']"

text \<open>
  \<open>encodeURIComponent\<close> on Latin-1 code units: letters, digits and \<open>- _ . ! ~ * ' ( )\<close>
  stand for themselves, every other code unit is written as the percent-encoded bytes
  of its UTF-8 form.
\<close>

definition upperHex :: "nat \<Rightarrow> char" where
  "upperHex n = (if n < 10 then char_of (48 + n) else char_of (55 + n))"

definition percent :: "nat \<Rightarrow> string" where
  "percent n = [CHR ''%'', upperHex (n div 16), upperHex (n mod 16)]"

definition uriUnreserved :: "char \<Rightarrow> bool" where
  "uriUnreserved c =
     (let n = (of_char c :: nat)
      in (97 \<le> n \<and> n \<le> 122) \<or> (65 \<le> n \<and> n \<le> 90) \<or> (48 \<le> n \<and> n \<le> 57)
         \<or> n \<in> {45, 95, 46, 33, 126, 42, 39, 40, 41})"

definition encodeChar :: "char \<Rightarrow> string" where
  "encodeChar c =
     (let n = (of_char c :: nat)
      in if uriUnreserved c then [c]
         else if n < 128 then percent n
         else percent (192 + n div 64) @ percent (128 + n mod 64))"

definition encodeURIComponent :: "string \<Rightarrow> string" where
  "encodeURIComponent s = concat (map encodeChar s)"

text \<open>The payload of a lookup: \<open>data?.available\<close> is read for its truthiness.\<close>

record lookup_payload =
  available :: "bool option"

definition setAvailability :: "avail_field \<Rightarrow> avail_status \<Rightarrow> page_state \<Rightarrow> page_state" where
  "setAvailability field v st = st\<lparr>availability := (availability st)(field := v)\<rparr>"

text \<open>
  \<open>checkAvailability\<close> runs up to its \<open>await\<close> (\<open>checkAvailability_begin\<close>): it either
  returns a status at once, or issues the lookup under the sequence number \<open>nextId\<close>
  and suspends.  When the lookup ends, it resumes (\<open>checkAvailability_resume\<close>) on the
  state as it is by then.
\<close>

datatype check_phase = Done avail_status | Awaiting nat

definition checkAvailability_begin ::
  "avail_field \<Rightarrow> string \<Rightarrow> page_state \<Rightarrow> check_phase \<times> page_state" where
  "checkAvailability_begin field v st =
     (let trimmed = trim v;
          normalized = toLowerCase trimmed
      in if trimmed = [] \<or> \<not> test usernamePattern trimmed then
           (Done Neutral, setAvailability field Neutral st)
         else
           (let savedValue =
                  (if field = Username then toLowerCase (trim (username (saved st)))
                   else toLowerCase (trim (profileUrl (saved st))))
            in if savedValue \<noteq> [] \<and> normalized = savedValue then
                 (Done Success, setAvailability field Success st)
               else if normalized \<in> set RESERVED_HANDLES then
                 (Done Error, setAvailability field Error st)
               else if token st = [] then
                 (Done Neutral, setAvailability field Neutral st)
               else
                 (let nextId = availabilityRequestRef st field + 1;
                      endpoint =
                        (if field = Username then
                           ''/auth/profile/username/?username='' @ encodeURIComponent trimmed
                         else ''/auth/profile/url/?profile_url='' @ encodeURIComponent trimmed)
                  in (Awaiting nextId,
                      st\<lparr>availabilityRequestRef := (availabilityRequestRef st)(field := nextId),
                         sent := sent st @ [Request ''GET'' endpoint True []]\<rparr>))))"

definition checkAvailability_resume ::
  "avail_field \<Rightarrow> nat \<Rightarrow> lookup_payload option api_result \<Rightarrow> page_state
     \<Rightarrow> avail_status \<times> page_state" where
  "checkAvailability_resume field nextId outcome st =
     (case outcome of
        Resolved data \<Rightarrow>
          (if availabilityRequestRef st field \<noteq> nextId then (Neutral, st)
           else if (case data of Some d \<Rightarrow> available d = Some True | None \<Rightarrow> False) then
             (Success, setAvailability field Success st)
           else (Error, setAvailability field Error st))
      | Rejected error \<Rightarrow>
          (Neutral,
           if availabilityRequestRef st field = nextId then setAvailability field Neutral st
           else st))"

definition checkAvailability_finish ::
  "avail_field \<Rightarrow> check_phase \<Rightarrow> lookup_payload option api_result \<Rightarrow> page_state
     \<Rightarrow> avail_status \<times> page_state" where
  "checkAvailability_finish field phase outcome st =
     (case phase of
        Done s \<Rightarrow> (s, st)
      | Awaiting nextId \<Rightarrow> checkAvailability_resume field nextId outcome st)"

text \<open>One call of \<open>checkAvailability\<close> whose lookup ends before anything else happens.\<close>

definition checkAvailability ::
  "avail_field \<Rightarrow> string \<Rightarrow> lookup_payload option api_result \<Rightarrow> page_state
     \<Rightarrow> avail_status \<times> page_state" where
  "checkAvailability field v outcome st =
     (let (phase, st1) = checkAvailability_begin field v st
      in checkAvailability_finish field phase outcome st1)"

text \<open>
  \<open>validateAvailability\<close>: \<open>Promise.all\<close> over two calls, which both run to their
  \<open>await\<close> before either lookup ends.
\<close>

definition validateAvailability ::
  "lookup_payload option api_result \<Rightarrow> lookup_payload option api_result \<Rightarrow> page_state
     \<Rightarrow> bool \<times> page_state" where
  "validateAvailability usernameOutcome profileUrlOutcome st =
     (let (phase1, st1) = checkAvailability_begin Username (username (draft st)) st;
          (phase2, st2) = checkAvailability_begin ProfileUrl (profileUrl (draft st)) st1;
          (usernameStatus, st3) = checkAvailability_finish Username phase1 usernameOutcome st2;
          (profileUrlStatus, st4) =
             checkAvailability_finish ProfileUrl phase2 profileUrlOutcome st3
      in (usernameStatus \<noteq> Error \<and> profileUrlStatus \<noteq> Error, st4))"

text \<open>
  Calls and lookup results arriving in any order: an event is a call of
  \<open>checkAvailability\<close> or the end of the lookup that was issued for a field under a
  sequence number.
\<close>

datatype avail_event =
  Invoke avail_field string
| Arrive avail_field nat "lookup_payload option api_result"

fun avail_step :: "page_state \<Rightarrow> avail_event \<Rightarrow> page_state" where
  "avail_step st (Invoke field v) = snd (checkAvailability_begin field v st)"
| "avail_step st (Arrive field nextId outcome) =
     snd (checkAvailability_resume field nextId outcome st)"

text \<open>
  Notions used to state what the checker does: the status a lookup's outcome stands for,
  the status a call ends with when nothing supersedes it, the saved value a field is
  compared with, the path of the lookup, and the relation between two states that differ
  only by availability flags, sequence numbers and lookups sent.
\<close>

definition outcomeStatus :: "lookup_payload option api_result \<Rightarrow> avail_status" where
  "outcomeStatus outcome =
     (case outcome of
        Resolved data \<Rightarrow>
          (if (case data of Some d \<Rightarrow> available d = Some True | None \<Rightarrow> False) then Success
           else Error)
      | Rejected error \<Rightarrow> Neutral)"

definition phaseStatus :: "check_phase \<Rightarrow> lookup_payload option api_result \<Rightarrow> avail_status" where
  "phaseStatus phase outcome =
     (case phase of Done s \<Rightarrow> s | Awaiting n \<Rightarrow> outcomeStatus outcome)"

definition lookupOnly :: "page_state \<Rightarrow> page_state \<Rightarrow> bool" where
  "lookupOnly st st' \<longleftrightarrow>
     (\<exists>A R G. st' = st\<lparr>availability := A, availabilityRequestRef := R, sent := sent st @ G\<rparr>
              \<and> list_all (\<lambda>r. \<not> isMutating r) G)"

definition savedHandle :: "avail_field \<Rightarrow> page_state \<Rightarrow> string" where
  "savedHandle field st =
     (if field = Username then username (saved st) else profileUrl (saved st))"

definition lookupEndpoint :: "avail_field \<Rightarrow> string \<Rightarrow> string" where
  "lookupEndpoint field h =
     (if field = Username then ''/auth/profile/username/?username='' @ h
      else ''/auth/profile/url/?profile_url='' @ h)"

subsection \<open>Saving a section\<close>

definition validateProfile :: "page_state \<Rightarrow> bool \<times> page_state" where
  "validateProfile st =
     (let d = draft st;
          nextErrors =
            (if trim (displayName d) = [] then
               [(''displayName'', ''Display name is required.'')]
             else if length (trim (displayName d)) < 2 then
               [(''displayName'', ''Display name must be at least 2 characters.'')]
             else [])
            @ (if trim (username d) = [] then [(''username'', ''Username is required.'')]
               else if \<not> test usernamePattern (trim (username d)) then
                 [(''username'', ''Use 3-30 letters, numbers, or ._- in your username.'')]
               else [])
            @ (if trim (profileUrl d) = [] then
                 [(''profileUrl'', ''Profile URL base is required.'')]
               else if \<not> test usernamePattern (trim (profileUrl d)) then
                 [(''profileUrl'', ''Profile URL must match username rules.'')]
               else [])
            @ (if length (bio d) > 160 then [(''bio'', ''Bio must be 160 characters or less.'')]
               else [])
            @ (if length (status d) > 80 then
                 [(''status'', ''Status must be 80 characters or less.'')]
               else [])
            @ (if length (interests d) > 5 then [(''interests'', ''Add up to 5 interests.'')]
               else [])
      in (nextErrors = [], st\<lparr>profileErrors := nextErrors\<rparr>))"

text \<open>
  What the server answers to a \<open>PATCH\<close>: \<open>data?.profile\<close>, \<open>data?.user\<close> and
  \<open>data?.notifications\<close>, each possibly absent, and inside them every property possibly
  absent (\<open>None\<close> stands for \<open>undefined\<close> and \<open>null\<close>).
\<close>

record profile_json =
  p_display_name :: "string option"
  p_username :: "string option"
  p_profile_url :: "string option"
  p_status :: "string option"
  p_bio :: "string option"
  p_location :: "string option"
  p_interests :: "string list option"
  p_photo_url :: "string option"
  p_visibility :: "string option"
  p_theme :: "string option"
  p_show_location :: "bool option"
  p_allow_search :: "bool option"

record notification_prefs =
  n_email_notifications :: "bool option"
  n_emailNotifications :: "bool option"
  n_product_updates :: "bool option"
  n_productUpdates :: "bool option"
  n_new_follower_alerts :: "bool option"
  n_newFollowerAlerts :: "bool option"
  n_weekly_digest :: "bool option"
  n_weeklyDigest :: "bool option"
  n_pause_notifications :: "string option"
  n_pauseNotifications :: "string option"

record patch_response =
  r_profile :: "profile_json option"
  r_user :: "user_json option"
  r_notifications :: "notification_prefs option"

definition applyNotificationPrefsTo :: "notification_prefs \<Rightarrow> settings_values \<Rightarrow> settings_values" where
  "applyNotificationPrefsTo prefs prev =
     prev\<lparr>emailNotifications :=
            nullish (n_email_notifications prefs) (n_emailNotifications prefs)
              (emailNotifications prev),
          productUpdates :=
            nullish (n_product_updates prefs) (n_productUpdates prefs) (productUpdates prev),
          newFollowerAlerts :=
            nullish (n_new_follower_alerts prefs) (n_newFollowerAlerts prefs)
              (newFollowerAlerts prev),
          weeklyDigest :=
            nullish (n_weekly_digest prefs) (n_weeklyDigest prefs) (weeklyDigest prev),
          pauseNotifications :=
            nullish (n_pause_notifications prefs) (n_pauseNotifications prefs)
              (pauseNotifications prev)\<rparr>"

definition applyNotificationPrefs :: "notification_prefs \<Rightarrow> page_state \<Rightarrow> page_state" where
  "applyNotificationPrefs prefs st =
     st\<lparr>saved := applyNotificationPrefsTo prefs (saved st),
        draft := applyNotificationPrefsTo prefs (draft st)\<rparr>"

definition emptyPrefs :: notification_prefs where
  "emptyPrefs =
     \<lparr>n_email_notifications = None, n_emailNotifications = None, n_product_updates = None,
      n_productUpdates = None, n_new_follower_alerts = None, n_newFollowerAlerts = None,
      n_weekly_digest = None, n_weeklyDigest = None, n_pause_notifications = None,
      n_pauseNotifications = None\<rparr>"

text \<open>The outcomes the environment supplies to one call of \<open>handleSave\<close>.\<close>

record save_outcomes =
  o_username :: "lookup_payload option api_result"
  o_profileUrl :: "lookup_payload option api_result"
  o_patch :: "patch_response api_result"

text \<open>
  \<open>mapUserToProfile\<close>, \<open>sampleProfile\<close> and \<open>buildDefaults\<close>: the profile shown for a user
  (the sample profile when there is none; it has no theme), and the object that \<open>saved\<close>
  and \<open>draft\<close> start from.
\<close>

record profile_view =
  bp_displayName :: string
  bp_username :: string
  bp_profileUrl :: string
  bp_status :: string
  bp_bio :: string
  bp_location :: string
  bp_interests :: "string list"
  bp_photoUrl :: string
  bp_visibility :: string
  bp_theme :: "string option"
  bp_showLocation :: bool
  bp_allowSearch :: bool

definition mapUserToProfile :: "user_json option \<Rightarrow> profile_view option" where
  "mapUserToProfile usr =
     (case usr of
        None \<Rightarrow> None
      | Some u \<Rightarrow>
          Some \<lparr>bp_displayName = orElse (u_name u) (orElse (u_username u) ''Profile''),
                bp_username = orElse (u_username u) [],
                bp_profileUrl =
                  orElse (u_profile_url u) (orElse (u_profileUrl u) (orElse (u_username u) [])),
                bp_status = orElse (u_status u) [],
                bp_bio = orElse (u_bio u) [],
                bp_location = orElse (u_location u) [],
                bp_interests = (case u_interests u of Some xs \<Rightarrow> xs | None \<Rightarrow> []),
                bp_photoUrl = orElse (u_photo_url u) (orElse (u_photoUrl u) []),
                bp_visibility = orElse (u_visibility u) ''public'',
                bp_theme = Some (orElse (u_theme u) ''system''),
                bp_showLocation = nullish (u_show_location u) (u_showLocation u) False,
                bp_allowSearch = nullish (u_allow_search u) (u_allowSearch u) False\<rparr>)"

definition sampleProfile :: profile_view where
  "sampleProfile =
     \<lparr>bp_displayName = ''Mika Franco'', bp_username = ''mikefranco'',
      bp_profileUrl = ''mikefranco'', bp_status = ''Building quietly this week.'',
      bp_bio = ''Builder. Minimalist. Learning in public. Sharing what matters and staying calm through the noise.'',
      bp_location = ''Lapu-Lapu City, Cebu'',
      bp_interests = [''Quiet systems'', ''Product design'', ''Minimal living'', ''City walks'',
                      ''Collaboration''],
      bp_photoUrl = [], bp_visibility = ''public'', bp_theme = None,
      bp_showLocation = True, bp_allowSearch = True\<rparr>"

definition baseProfile :: "user_json option \<Rightarrow> profile_view" where
  "baseProfile usr = (case mapUserToProfile usr of Some p \<Rightarrow> p | None \<Rightarrow> sampleProfile)"

definition buildDefaults :: "profile_view \<Rightarrow> settings_values" where
  "buildDefaults b =
     \<lparr>displayName = orElse (Some (bp_displayName b)) [],
      username = orElse (Some (bp_username b)) [],
      profileUrl = orElse (Some (bp_profileUrl b)) (orElse (Some (bp_username b)) []),
      bio = orElse (Some (bp_bio b)) [],
      location = orElse (Some (bp_location b)) [],
      interests = bp_interests b,
      status = orElse (Some (bp_status b)) [],
      photoUrl = orElse (Some (bp_photoUrl b)) [],
      visibility = orElse (Some (bp_visibility b)) ''public'',
      showLocation = (bp_showLocation b \<and> bp_location b \<noteq> []),
      allowSearch = bp_allowSearch b,
      emailNotifications = True,
      productUpdates = True,
      newFollowerAlerts = False,
      weeklyDigest = False,
      pauseNotifications = ''off'',
      theme = orElse (bp_theme b) ''system''\<rparr>"

text \<open>
  The effect that depends on \<open>buildDefaults\<close>: it runs whenever the user object is
  replaced (\<open>baseProfile\<close> is recomputed from it, and \<open>buildDefaults\<close> with it) and
  overwrites \<open>saved\<close> and \<open>draft\<close>.
\<close>

definition defaultsEffect :: "page_state \<Rightarrow> page_state" where
  "defaultsEffect st =
     (let next = buildDefaults (baseProfile (user st))
      in st\<lparr>saved := next, draft := next, availability := neutralAvailability,
            notificationsLoaded := False\<rparr>)"

text \<open>
  \<open>setUser(u)\<close> with an object that came in a response: the user is replaced, and the
  render that follows runs the effect above.  The effect runs once the handler's own
  updates are in; the updates that a save handler makes after \<open>setUser\<close> (errors, the
  availability flags set to neutral, the toast, \<open>isSaving\<close>) write no cell that the
  effect writes differently, so the state is the same as with the effect run here.
\<close>

definition setUser :: "user_json \<Rightarrow> page_state \<Rightarrow> page_state" where
  "setUser u st = defaultsEffect (st\<lparr>user := Some u\<rparr>)"

definition setUserFrom :: "patch_response \<Rightarrow> page_state \<Rightarrow> page_state" where
  "setUserFrom data st = (case r_user data of Some u \<Rightarrow> setUser u st | None \<Rightarrow> st)"

text \<open>\<open>{ ...prev, ...nextFields }\<close> for the \<open>nextFields\<close> of the profile branch.\<close>

definition mergeProfileFields :: "profile_json \<Rightarrow> settings_values \<Rightarrow> settings_values \<Rightarrow> settings_values" where
  "mergeProfileFields profile sv prev =
     prev\<lparr>displayName := orElse (p_display_name profile) [],
          username := orElse (p_username profile) [],
          profileUrl := orElse (p_profile_url profile) [],
          status := orElse (p_status profile) [],
          bio := orElse (p_bio profile) [],
          location := orElse (p_location profile) [],
          interests := (case p_interests profile of Some xs \<Rightarrow> xs | None \<Rightarrow> []),
          photoUrl := orElse (p_photo_url profile) [],
          visibility := orElse (p_visibility profile) (orElse (Some (visibility sv)) ''public''),
          theme := orElse (p_theme profile) (orElse (Some (theme sv)) ''system''),
          showLocation :=
            (p_show_location profile = Some True
             \<and> orElse (p_location profile) (location sv) \<noteq> []),
          allowSearch :=
            (case p_allow_search profile of Some b \<Rightarrow> b | None \<Rightarrow> allowSearch sv)\<rparr>"

definition mapProfileErrors :: "api_error \<Rightarrow> (string \<times> string) list" where
  "mapProfileErrors error =
     (let apiErrors = (case err_errors error of Some es \<Rightarrow> es | None \<Rightarrow> []);
          pick = (\<lambda>key target.
                    case map_of apiErrors key of
                      Some (c # m) \<Rightarrow> [(target, c # m)]
                    | _ \<Rightarrow> [])
      in pick ''display_name'' ''displayName'' @ pick ''username'' ''username''
         @ pick ''profile_url'' ''profileUrl'' @ pick ''status'' ''status''
         @ pick ''bio'' ''bio'' @ pick ''location'' ''location''
         @ pick ''interests'' ''interests'')"

definition issue :: "request \<Rightarrow> page_state \<Rightarrow> page_state" where
  "issue r st = st\<lparr>sent := sent st @ [r]\<rparr>"

definition saveProfile :: "save_outcomes \<Rightarrow> page_state \<Rightarrow> page_state" where
  "saveProfile env st =
     (let (valid, st1) = validateProfile st
      in if \<not> valid then st1
         else
           (let st2 = st1\<lparr>isSaving := True\<rparr>;
                (canSave, st3) = validateAvailability (o_username env) (o_profileUrl env) st2;
                st4 =
                  (if \<not> canSave then st3
                   else if token st = [] then
                     pageToast ''Session expired. Please log in again.'' ''warning'' st3
                   else
                     (let payload =
                            [(''display_name'', JString (trim (displayName (draft st)))),
                             (''username'', JString (trim (username (draft st)))),
                             (''profile_url'', JString (trim (profileUrl (draft st)))),
                             (''status'', JString (trim (status (draft st)))),
                             (''bio'', JString (trim (bio (draft st)))),
                             (''location'', JString (trim (location (draft st)))),
                             (''interests'', JArray (interests (draft st))),
                             (''theme'', JString (theme (draft st)))];
                          st5 = issue (Request ''PATCH'' ''/auth/profile/'' True payload) st3
                      in case o_patch env of
                           Resolved data \<Rightarrow>
                             (let st6 =
                                    (case r_profile data of
                                       Some profile \<Rightarrow>
                                         st5\<lparr>saved := mergeProfileFields profile (saved st) (saved st5),
                                             draft := mergeProfileFields profile (saved st) (draft st5),
                                             interestInput := []\<rparr>
                                     | None \<Rightarrow> st5);
                                  st7 = setUserFrom data st6;
                                  st8 = st7\<lparr>profileErrors := [],
                                             availability := neutralAvailability\<rparr>
                              in pageToast ''Profile updated successfully.'' ''success'' st8)
                         | Rejected error \<Rightarrow>
                             (let mappedErrors = mapProfileErrors error;
                                  st6 = (if mappedErrors \<noteq> [] then
                                           st5\<lparr>profileErrors := mappedErrors\<rparr>
                                         else st5)
                              in pageToast (shortMessageFromError error) ''error'' st6)))
            in st4\<lparr>isSaving := False\<rparr>))"

text \<open>The \<open>nextFields\<close> of the privacy branch, merged into \<open>prev\<close>.\<close>

definition mergePrivacyFields :: "profile_json \<Rightarrow> settings_values \<Rightarrow> settings_values \<Rightarrow> settings_values" where
  "mergePrivacyFields profile sv prev =
     prev\<lparr>visibility := orElse (p_visibility profile) ''public'',
          showLocation :=
            (p_show_location profile = Some True
             \<and> orElse (p_location profile) (location sv) \<noteq> []),
          allowSearch := (p_allow_search profile = Some True)\<rparr>"

definition savePrivacy :: "save_outcomes \<Rightarrow> page_state \<Rightarrow> page_state" where
  "savePrivacy env st =
     (let st1 = st\<lparr>isSaving := True\<rparr>;
          st2 =
            (if token st = [] then
               pageToast ''Session expired. Please log in again.'' ''warning'' st1
             else
               (let payload =
                      [(''display_name'', JString (displayName (saved st))),
                       (''username'', JString (username (saved st))),
                       (''profile_url'', JString (profileUrl (saved st))),
                       (''status'', JString (status (saved st))),
                       (''bio'', JString (bio (saved st))),
                       (''location'', JString (location (saved st))),
                       (''interests'', JArray (interests (saved st))),
                       (''visibility'', JString (visibility (draft st))),
                       (''show_location'', JBool (showLocation (draft st))),
                       (''allow_search'', JBool (allowSearch (draft st)))];
                    st3 = issue (Request ''PATCH'' ''/auth/profile/'' True payload) st1
                in case o_patch env of
                     Resolved data \<Rightarrow>
                       (let st4 =
                              (case r_profile data of
                                 Some profile \<Rightarrow>
                                   st3\<lparr>saved := mergePrivacyFields profile (saved st) (saved st3),
                                       draft := mergePrivacyFields profile (saved st) (draft st3)\<rparr>
                               | None \<Rightarrow>
                                   st3\<lparr>saved := (saved st3)
                                          \<lparr>visibility := visibility (draft st),
                                           showLocation := showLocation (draft st),
                                           allowSearch := allowSearch (draft st)\<rparr>\<rparr>);
                            st5 = setUserFrom data st4
                        in pageToast ''Privacy settings updated.'' ''success'' st5)
                   | Rejected error \<Rightarrow> pageToast (shortMessageFromError error) ''error'' st3))
      in st2\<lparr>isSaving := False\<rparr>)"

definition saveNotifications :: "save_outcomes \<Rightarrow> page_state \<Rightarrow> page_state" where
  "saveNotifications env st =
     (if token st = [] then pageToast ''Session expired. Please log in again.'' ''warning'' st
      else
        (let st1 = st\<lparr>isSaving := True\<rparr>;
             payload =
               [(''email_notifications'', JBool (emailNotifications (draft st))),
                (''product_updates'', JBool (productUpdates (draft st))),
                (''new_follower_alerts'', JBool (newFollowerAlerts (draft st))),
                (''weekly_digest'', JBool (weeklyDigest (draft st))),
                (''pause_notifications'', JString (pauseNotifications (draft st)))];
             st2 = issue (Request ''PATCH'' ''/auth/notifications/'' True payload) st1;
             st3 =
               (case o_patch env of
                  Resolved data \<Rightarrow>
                    pageToast ''Notification preferences updated.'' ''success''
                      (applyNotificationPrefs
                         (case r_notifications data of Some prefs \<Rightarrow> prefs | None \<Rightarrow> emptyPrefs)
                         st2)
                | Rejected error \<Rightarrow> pageToast (shortMessageFromError error) ''error'' st2)
         in st3\<lparr>isSaving := False\<rparr>))"

definition saveAppearance :: "save_outcomes \<Rightarrow> page_state \<Rightarrow> page_state" where
  "saveAppearance env st =
     (if token st = [] then pageToast ''Session expired. Please log in again.'' ''warning'' st
      else
        (let st1 = st\<lparr>isSaving := True\<rparr>;
             payload =
               [(''display_name'', JString (displayName (saved st))),
                (''username'', JString (username (saved st))),
                (''profile_url'', JString (profileUrl (saved st))),
                (''status'', JString (status (saved st))),
                (''bio'', JString (bio (saved st))),
                (''location'', JString (location (saved st))),
                (''interests'', JArray (interests (saved st))),
                (''visibility'', JString (visibility (saved st))),
                (''show_location'', JBool (showLocation (saved st))),
                (''allow_search'', JBool (allowSearch (saved st))),
                (''theme'', JString (theme (draft st)))];
             st2 = issue (Request ''PATCH'' ''/auth/profile/'' True payload) st1;
             st3 =
               (case o_patch env of
                  Resolved data \<Rightarrow>
                    (let st4 =
                           (case r_profile data of
                              Some profile \<Rightarrow>
                                (let nextTheme =
                                       orElse (p_theme profile)
                                         (orElse (Some (theme (draft st))) ''system'')
                                 in st2\<lparr>saved := (saved st2)\<lparr>theme := nextTheme\<rparr>,
                                        draft := (draft st2)\<lparr>theme := nextTheme\<rparr>\<rparr>)
                            | None \<Rightarrow> st2\<lparr>saved := (saved st2)\<lparr>theme := theme (draft st)\<rparr>\<rparr>);
                         st5 = setUserFrom data st4
                     in pageToast ''Appearance updated.'' ''success'' st5)
                | Rejected error \<Rightarrow> pageToast (shortMessageFromError error) ''error'' st2)
         in st3\<lparr>isSaving := False\<rparr>))"

text \<open>
  The last branch of \<open>handleSave\<close> (a section without an endpoint) hands a callback to
  \<open>setTimeout\<close>; \<open>savedTimeoutFires\<close> is that callback, run with the draft it captured.
\<close>

definition savedTimeoutFires :: "settings_values \<Rightarrow> page_state \<Rightarrow> page_state" where
  "savedTimeoutFires captured st =
     (pageToast ''Settings saved.'' ''success'' (st\<lparr>saved := captured\<rparr>))\<lparr>isSaving := False\<rparr>"

definition handleSave :: "save_outcomes \<Rightarrow> page_state \<Rightarrow> page_state" where
  "handleSave env st =
     (if \<not> hasSectionChanges (activeSection st) st then st
      else if activeSection st = Profile then saveProfile env st
      else if activeSection st = Privacy then savePrivacy env st
      else if activeSection st = Notifications then saveNotifications env st
      else if activeSection st = Appearance then saveAppearance env st
      else st\<lparr>isSaving := True, scheduled := scheduled st @ [(650, draft st)]\<rparr>)"

text \<open>
  Notions used to state what a save does: the requests a handler added to those already
  sent, the state in which the profile branch starts its availability checks, the body
  of the profile request, and the three preconditions of a profile save (the section is
  dirty, local validation finds no error, neither availability check ends in
  \<open>error\<close>).
\<close>

definition newRequests :: "page_state \<Rightarrow> page_state \<Rightarrow> request list" where
  "newRequests st st' = drop (length (sent st)) (sent st')"

definition savingState :: "page_state \<Rightarrow> page_state" where
  "savingState st = (snd (validateProfile st))\<lparr>isSaving := True\<rparr>"

definition profilePayload :: "settings_values \<Rightarrow> (string \<times> jsvalue) list" where
  "profilePayload d =
     [(''display_name'', JString (trim (displayName d))),
      (''username'', JString (trim (username d))),
      (''profile_url'', JString (trim (profileUrl d))),
      (''status'', JString (trim (status d))),
      (''bio'', JString (trim (bio d))),
      (''location'', JString (trim (location d))),
      (''interests'', JArray (interests d)),
      (''theme'', JString (theme d))]"

definition profileSaveAllowed :: "save_outcomes \<Rightarrow> page_state \<Rightarrow> bool" where
  "profileSaveAllowed env st \<longleftrightarrow>
     hasSectionChanges Profile st
     \<and> profileErrors (snd (validateProfile st)) = []
     \<and> fst (checkAvailability Username (username (draft st)) (o_username env) st) \<noteq> Error
     \<and> fst (checkAvailability ProfileUrl (profileUrl (draft st)) (o_profileUrl env) st) \<noteq> Error"

subsection \<open>A sample state\<close>

text \<open>A concrete page state on which the theorems below are instantiated.\<close>

definition exampleValues :: settings_values where
  "exampleValues =
     \<lparr>displayName = ''Mika Franco'', username = ''mika'', profileUrl = ''mika'', bio = ''x'',
      location = ''Cebu'', interests = [''design''], status = ''Building'', photoUrl = [],
      visibility = ''public'', showLocation = True, allowSearch = True,
      emailNotifications = True, productUpdates = True, newFollowerAlerts = False,
      weeklyDigest = False, pauseNotifications = ''off'', theme = ''system''\<rparr>"

definition exampleUser :: user_json where
  "exampleUser =
     \<lparr>u_name = Some ''Mika U.'', u_username = Some ''mika'', u_profile_url = Some ''mika'',
      u_profileUrl = None, u_status = Some ''Building'', u_bio = Some ''x'',
      u_location = Some ''Cebu'', u_interests = Some [''design''], u_photo_url = None,
      u_photoUrl = None, u_visibility = Some ''public'', u_theme = None,
      u_show_location = Some True, u_showLocation = None, u_allow_search = Some True,
      u_allowSearch = None\<rparr>"

definition examplePage :: page_state where
  "examplePage =
     \<lparr>token = ''t0k'', user = Some exampleUser, localStorage = Map.empty, console_log = [],
      sent = [], isMobile = False, activeSection = Profile, showMobileList = False,
      searchTab = Some Profile, route = ''/settings'', pendingSection = None,
      discardOpen = False, isSaving = False, profileErrors = [], interestInput = [],
      availability = neutralAvailability, availabilityRequestRef = (\<lambda>field. 0),
      passwordDraft = \<lparr>pd_current = [], pd_next = [], pd_confirm = []\<rparr>,
      emailDraft = \<lparr>ed_email = [], ed_password = []\<rparr>,
      saved = exampleValues, draft = exampleValues,
      lastActiveElement = None, activeElement = Some 7, toastLog = [], scheduled = [],
      notificationsLoaded = False\<rparr>"


text \<open>
  Sample server answers, and sample states: the display name edited, and the privacy
  section with the visibility edited.
\<close>

definition serverProfile :: profile_json where
  "serverProfile =
     \<lparr>p_display_name = Some ''Mika F.'', p_username = Some ''mika'',
      p_profile_url = Some ''mika'', p_status = Some ''Building'', p_bio = Some ''x'',
      p_location = Some ''Cebu'', p_interests = Some [''design''], p_photo_url = None,
      p_visibility = Some ''public'', p_theme = None, p_show_location = Some True,
      p_allow_search = None\<rparr>"

definition exampleOutcomes :: save_outcomes where
  "exampleOutcomes =
     \<lparr>o_username = Resolved None, o_profileUrl = Resolved None,
      o_patch = Resolved \<lparr>r_profile = Some serverProfile, r_user = None,
                           r_notifications = None\<rparr>\<rparr>"



definition renamedPage :: page_state where
  "renamedPage = examplePage\<lparr>draft := (draft examplePage)\<lparr>displayName := ''Mika Draft''\<rparr>\<rparr>"


section \<open>Verification: login validation\<close>

lemma includes_str_single: "includes_str s [c] \<longleftrightarrow> c \<in> set s"
  by (induction s) auto

lemma handleChar_spec: "handleChar c \<longleftrightarrow> isLetter c \<or> isDigit c \<or> c \<in> set ''._-''"
proof -
  have inj: "\<And>S. (c \<in> S) = ((of_char c :: nat) \<in> of_char ` S)"
    by (simp add: inj_image_mem_iff inj_on_def)
  have l: "isLetter c \<longleftrightarrow>
             (97 \<le> (of_char c :: nat) \<and> (of_char c :: nat) \<le> 122) \<or>
             (65 \<le> (of_char c :: nat) \<and> (of_char c :: nat) \<le> 90)"
    unfolding isLetter_def inj[of "set _"] by simp arith
  have d: "isDigit c \<longleftrightarrow> (48 \<le> (of_char c :: nat) \<and> (of_char c :: nat) \<le> 57)"
    unfolding isDigit_def inj[of "set _"] by simp arith
  show ?thesis unfolding l d by (auto simp: handleChar_def Let_def)
qed

lemma usernamePattern_spec: "test usernamePattern s \<longleftrightarrow> spec_handle s"
proof -
  have "test usernamePattern s \<longleftrightarrow>
          (\<exists>k. 3 \<le> k \<and> k \<le> min 30 (length s) \<and> list_all handleChar (take k s) \<and> drop k s = [])"
    by (auto simp: test_def usernamePattern_def list_ex_iff)
  also have "\<dots> \<longleftrightarrow> 3 \<le> length s \<and> length s \<le> 30 \<and> list_all handleChar s"
    by (auto intro: exI[of _ "length s"])
  finally show ?thesis by (simp add: spec_handle_def list_all_iff handleChar_spec)
qed

lemma handleChar_notSpace: "handleChar c \<Longrightarrow> \<not> isWhiteSpace c \<and> c \<noteq> CHR ''@''"
  by (auto simp: handleChar_def isWhiteSpace_def Let_def)

lemma dropWhile_hd_self: "xs \<noteq> [] \<Longrightarrow> \<not> P (hd xs) \<Longrightarrow> dropWhile P xs = xs"
  by (cases xs) auto

lemma trim_id:
  assumes ne: "s \<noteq> []" and h: "\<not> isWhiteSpace (hd s)" and l: "\<not> isWhiteSpace (last s)"
  shows "trim s = s"
proof -
  have a: "dropWhile isWhiteSpace s = s" using ne h by (rule dropWhile_hd_self)
  have "rev s \<noteq> []" "\<not> isWhiteSpace (hd (rev s))" using ne l by (simp_all add: hd_rev)
  then have b: "dropWhile isWhiteSpace (rev s) = rev s" by (rule dropWhile_hd_self)
  show ?thesis by (simp add: trim_def a b)
qed

lemma test_usernamePattern_trim:
  assumes "test usernamePattern s"
  shows "trim s = s \<and> s \<noteq> [] \<and> CHR ''@'' \<notin> set s"
proof -
  from assms have ne: "s \<noteq> []" and all: "\<forall>c\<in>set s. handleChar c"
    by (auto simp: usernamePattern_spec spec_handle_def list_all_iff handleChar_spec)
  from ne all have "\<not> isWhiteSpace (hd s)" "\<not> isWhiteSpace (last s)"
    using handleChar_notSpace by auto
  with ne have "trim s = s" by (rule trim_id)
  moreover have "CHR ''@'' \<notin> set s" using all handleChar_notSpace by blast
  ultimately show ?thesis using ne by simp
qed

text \<open>
  Claim C8.  \<open>validateLogin\<close> reports an \<open>identifier\<close> error exactly when the trimmed
  identifier is empty, or contains \<open>@\<close> and fails the email pattern, or has no \<open>@\<close> and is
  not a handle of 3 to 30 letters, digits, \<open>.\<close>, \<open>_\<close> or \<open>-\<close>.  An identifier that is such
  a handle gets no \<open>identifier\<close> error.  A \<open>password\<close> error is reported exactly when the
  password is empty: nothing else about it is checked.
\<close>

theorem validateLogin_errors:
  "(validateLogin v ''identifier'' \<noteq> None \<longleftrightarrow>
      trim (v_identifier v) = [] \<or>
      (CHR ''@'' \<in> set (trim (v_identifier v)) \<and> \<not> test emailPattern (trim (v_identifier v))) \<or>
      (CHR ''@'' \<notin> set (trim (v_identifier v)) \<and> \<not> spec_handle (trim (v_identifier v))))
   \<and> (spec_handle (v_identifier v) \<longrightarrow> validateLogin v ''identifier'' = None)
   \<and> (validateLogin v ''password'' \<noteq> None \<longleftrightarrow> v_password v = [])"
proof (intro conjI impI)
  show "validateLogin v ''identifier'' \<noteq> None \<longleftrightarrow>
      trim (v_identifier v) = [] \<or>
      (CHR ''@'' \<in> set (trim (v_identifier v)) \<and> \<not> test emailPattern (trim (v_identifier v))) \<or>
      (CHR ''@'' \<notin> set (trim (v_identifier v)) \<and> \<not> spec_handle (trim (v_identifier v)))"
    by (simp add: validateLogin_def Let_def includes_str_single usernamePattern_spec)
next
  assume "spec_handle (v_identifier v)"
  then show "validateLogin v ''identifier'' = None"
    using test_usernamePattern_trim[of "v_identifier v"]
    by (simp add: validateLogin_def Let_def includes_str_single usernamePattern_spec)
next
  show "validateLogin v ''password'' \<noteq> None \<longleftrightarrow> v_password v = []"
    by (simp add: validateLogin_def Let_def)
qed

theorem validateLogin_errors_witness:
  "spec_handle ''mika_01''
   \<and> validateLogin \<lparr>v_identifier = ''mika_01'', v_password = ''pw''\<rparr> ''identifier'' = None
   \<and> validateLogin \<lparr>v_identifier = ''mika_01'', v_password = ''pw''\<rparr> ''password'' = None"
  using validateLogin_errors[of "\<lparr>v_identifier = ''mika_01'', v_password = ''pw''\<rparr>"]
  by (simp add: spec_handle_def isLetter_def isDigit_def)

section \<open>Verification: toast signaling\<close>

lemma toast_inv_init: "toast_inv toast_init"
  by (simp add: toast_inv_def toast_init_def)

lemma showToast_result:
  assumes "toast_inv st"
  shows "showToast m k st =
           st\<lparr>toast := Some \<lparr>toast_message = m, toast_type = k\<rparr>,
              timers := [(nextTimerId st, now st + 3200)],
              nextTimerId := Suc (nextTimerId st),
              timerRef := Some (nextTimerId st)\<rparr>"
  using assms
  by (auto simp: toast_inv_def showToast_def clearTimeout_def setTimeout_def Let_def
           split: option.splits)

lemma toast_inv_showToast: "toast_inv st \<Longrightarrow> toast_inv (showToast m k st)"
  by (simp add: showToast_result) (simp add: toast_inv_def)

lemma toast_inv_elapse:
  assumes "toast_inv st"
  shows "toast_inv (elapse d st)"
proof (cases "timers st")
  case Nil
  with assms show ?thesis by (simp add: toast_inv_def elapse_def Let_def)
next
  case (Cons p ps)
  with assms obtain t w where tw: "timers st = [(t, w)]" "timerRef st = Some t" "t \<noteq> 0"
    by (auto simp: toast_inv_def)
  with assms show ?thesis
    by (cases "w \<le> now st + d") (simp_all add: toast_inv_def elapse_def Let_def)
qed

lemma toast_inv_step: "toast_inv st \<Longrightarrow> toast_inv (toast_step st ev)"
  by (cases ev) (simp_all add: toast_inv_showToast toast_inv_elapse)

lemma toast_inv_foldl: "toast_inv st \<Longrightarrow> toast_inv (foldl toast_step st evs)"
  by (induction evs arbitrary: st) (simp_all add: toast_inv_step)

lemma toast_inv_run: "toast_inv (toast_run evs)"
  unfolding toast_run_def by (rule toast_inv_foldl[OF toast_inv_init])

text \<open>
  Claim C9.  After any sequence of \<open>showToast\<close> calls and passages of time, at most one
  dismissal timer is pending.  A further call \<open>showToast(m, k)\<close> makes \<open>m\<close> the toast
  shown, cancels the timer of any earlier toast and leaves exactly one pending timer,
  due 3200 ms later: the toast stays until then whatever was shown before, and is
  cleared once 3200 ms have passed.
\<close>

theorem showToast_single_timer:
  "length (timers (toast_run evs)) \<le> 1
   \<and> toast (showToast m k (toast_run evs)) = Some \<lparr>toast_message = m, toast_type = k\<rparr>
   \<and> timers (showToast m k (toast_run evs))
       = [(nextTimerId (toast_run evs), now (toast_run evs) + 3200)]
   \<and> timerRef (showToast m k (toast_run evs)) = Some (nextTimerId (toast_run evs))
   \<and> (d < 3200 \<longrightarrow>
        toast (elapse d (showToast m k (toast_run evs)))
          = Some \<lparr>toast_message = m, toast_type = k\<rparr>
        \<and> timers (elapse d (showToast m k (toast_run evs)))
          = timers (showToast m k (toast_run evs)))
   \<and> (3200 \<le> d \<longrightarrow>
        toast (elapse d (showToast m k (toast_run evs))) = None
        \<and> timers (elapse d (showToast m k (toast_run evs))) = [])"
proof -
  have inv: "toast_inv (toast_run evs)" by (rule toast_inv_run)
  note r = showToast_result[OF inv, of m k]
  have "length (timers (toast_run evs)) \<le> 1"
    using inv by (auto simp: toast_inv_def)
  then show ?thesis
    by (simp add: r elapse_def Let_def)
qed

theorem showToast_single_timer_witness:
  "toast (elapse 2500 (showToast ''second'' ''info''
            (toast_run [Show ''first'' ''success'', Elapse 1000])))
     = Some \<lparr>toast_message = ''second'', toast_type = ''info''\<rparr>
   \<and> timers (showToast ''second'' ''info''
            (toast_run [Show ''first'' ''success'', Elapse 1000])) = [(2, 4200)]"
  using showToast_single_timer[of "[Show ''first'' ''success'', Elapse 1000]" "''second''" "''info''" 2500]
  by (simp add: toast_run_def toast_init_def showToast_def setTimeout_def clearTimeout_def elapse_def Let_def)

section \<open>Verification: logout\<close>

text \<open>
  Claim C7.  \<open>logout\<close> always ends with the token empty, no user, and no record under
  the storage key, whether the server call succeeded, failed, or (without a token) was
  never made; the request is sent exactly when a token was held, and its failure
  changes nothing of that.
\<close>

theorem logout_always_clears:
  "token (logout outcome st) = []
   \<and> user (logout outcome st) = None
   \<and> localStorage (logout outcome st) AUTH_STORAGE_KEY = None
   \<and> sent (logout outcome st)
       = sent st @ (if token st = [] then [] else [Request ''POST'' ''/auth/logout/'' True []])"
  by (cases outcome) (simp_all add: logout_def clearAuth_def Let_def)

theorem logout_always_clears_witness:
  "token (logout (Rejected \<lparr>err_status = Some 500, err_message = ''Request failed'',
                              err_errors = None, err_detail = None\<rparr>)
            \<lparr>token = ''t0k'', user = Some exampleUser,
             localStorage = [AUTH_STORAGE_KEY \<mapsto> ''stored''],
             console_log = [], sent = []\<rparr>) = []
   \<and> localStorage (logout (Rejected \<lparr>err_status = Some 500, err_message = ''Request failed'',
                              err_errors = None, err_detail = None\<rparr>)
            \<lparr>token = ''t0k'', user = Some exampleUser,
             localStorage = [AUTH_STORAGE_KEY \<mapsto> ''stored''],
             console_log = [], sent = []\<rparr>) AUTH_STORAGE_KEY = None"
  using logout_always_clears[of "Rejected \<lparr>err_status = Some 500, err_message = ''Request failed'',
                              err_errors = None, err_detail = None\<rparr>"
            "\<lparr>token = ''t0k'', user = Some exampleUser,
             localStorage = [AUTH_STORAGE_KEY \<mapsto> ''stored''],
             console_log = [], sent = []\<rparr>"]
  by simp

section \<open>Verification: \<open>JSON.stringify\<close> loses nothing\<close>

lemma hexValue_hexDigit: "k < 16 \<Longrightarrow> hexValue (hexDigit k) = k"
  by (simp add: hexValue_def hexDigit_def Let_def)

lemma of_char_lit: "((of_char c :: nat) = of_char d) = (c = d)"
  by (rule of_char_eq_iff)

lemma of_char_cases:
  "((of_char c :: nat) = 8) = (c = CHR 0x08)"
  "((of_char c :: nat) = 9) = (c = CHR 0x09)"
  "((of_char c :: nat) = 10) = (c = CHR 0x0A)"
  "((of_char c :: nat) = 12) = (c = CHR 0x0C)"
  "((of_char c :: nat) = 13) = (c = CHR 0x0D)"
  "((of_char c :: nat) = 34) = (c = CHR 0x22)"
  "((of_char c :: nat) = 92) = (c = CHR 0x5C)"
  using of_char_lit[of c "CHR 0x08"] of_char_lit[of c "CHR 0x09"] of_char_lit[of c "CHR 0x0A"]
    of_char_lit[of c "CHR 0x0C"] of_char_lit[of c "CHR 0x0D"] of_char_lit[of c "CHR 0x22"]
    of_char_lit[of c "CHR 0x5C"]
  by simp_all

lemma unescape_escape: "unescapeChar (escapeChar c @ r) = Some (c, r)"
proof -
  define n where "n = (of_char c :: nat)"
  have c: "char_of n = c" by (simp add: n_def)
  note lits = of_char_cases[of c, folded n_def]
  consider "n = 8" | "n = 9" | "n = 10" | "n = 12" | "n = 13" | "n = 34" | "n = 92"
    | "n < 32" "n \<notin> {8, 9, 10, 12, 13}" | "32 \<le> n" "n \<noteq> 34" "n \<noteq> 92"
    by force
  then show ?thesis
  proof cases
    case 8
    have "16 * (n div 16) + n mod 16 = n" by simp
    moreover have "c \<noteq> CHR 0x5C" using 8 lits by auto
    ultimately show ?thesis using 8 c
      by (simp add: escapeChar_def n_def[symmetric] Let_def hexValue_hexDigit)
  next
    case 9
    then have "c \<noteq> CHR 0x5C" using lits by auto
    with 9 show ?thesis by (simp add: escapeChar_def n_def[symmetric] Let_def)
  qed (use lits in \<open>auto simp: escapeChar_def n_def[symmetric] Let_def\<close>)
qed

lemma escape_prefix: "escapeChar c @ r = escapeChar d @ r' \<Longrightarrow> c = d \<and> r = r'"
proof -
  assume "escapeChar c @ r = escapeChar d @ r'"
  then have "unescapeChar (escapeChar c @ r) = unescapeChar (escapeChar d @ r')" by simp
  then show ?thesis by (simp add: unescape_escape)
qed

lemma escape_not_quote: "escapeChar c @ r \<noteq> CHR 0x22 # r'"
proof -
  show ?thesis using of_char_cases[of c] by (auto simp: escapeChar_def Let_def)
qed

lemma body_inj:
  "concat (map escapeChar s) @ CHR 0x22 # r = concat (map escapeChar s') @ CHR 0x22 # r'
     \<Longrightarrow> s = s' \<and> r = r'"
proof (induction s arbitrary: s')
  case Nil
  then show ?case
    by (cases s') (use escape_not_quote in \<open>auto dest: sym\<close>)
next
  case (Cons c t)
  show ?case
  proof (cases s')
    case Nil
    with Cons.prems show ?thesis using escape_not_quote by auto
  next
    case (Cons c' t')
    with Cons.prems have
      "escapeChar c @ (concat (map escapeChar t) @ CHR 0x22 # r)
         = escapeChar c' @ (concat (map escapeChar t') @ CHR 0x22 # r')" by simp
    then have "c = c'" and
      "concat (map escapeChar t) @ CHR 0x22 # r = concat (map escapeChar t') @ CHR 0x22 # r'"
      using escape_prefix by blast+
    with Cons.IH[of t'] Cons show ?thesis by simp
  qed
qed

lemma quote_inj: "quoteJSONString s @ r = quoteJSONString s' @ r' \<Longrightarrow> s = s' \<and> r = r'"
  using body_inj[of s r s' r'] by (simp add: quoteJSONString_def)

lemma arrayTail_inj: "arrayTail xs @ r = arrayTail ys @ r' \<Longrightarrow> xs = ys \<and> r = r'"
proof (induction xs arbitrary: ys)
  case Nil
  then show ?case by (cases ys) auto
next
  case (Cons x xs)
  show ?case
  proof (cases ys)
    case Nil
    with Cons.prems show ?thesis by auto
  next
    case (Cons y ys')
    with Cons.prems have "quoteJSONString x @ (arrayTail xs @ r) = quoteJSONString y @ (arrayTail ys' @ r')"
      by simp
    then have "x = y" "arrayTail xs @ r = arrayTail ys' @ r'" using quote_inj by blast+
    with Cons.IH[of ys'] Cons show ?thesis by simp
  qed
qed

lemma serializeArray_inj: "serializeArray xs = serializeArray ys \<Longrightarrow> xs = ys"
proof (cases xs; cases ys)
  fix x xs' y ys'
  assume e: "serializeArray xs = serializeArray ys" and xs: "xs = x # xs'" and ys: "ys = y # ys'"
  then have "quoteJSONString x @ (arrayTail xs' @ []) = quoteJSONString y @ (arrayTail ys' @ [])"
    by simp
  then have "x = y" "arrayTail xs' @ [] = arrayTail ys' @ []" using quote_inj by blast+
  then show "xs = ys" using arrayTail_inj xs ys by blast
qed (auto simp: quoteJSONString_def)

lemma quote_hd: "quoteJSONString s = CHR 0x22 # tl (quoteJSONString s)"
  by (simp add: quoteJSONString_def)

lemma serializeArray_hd: "serializeArray xs = CHR ''['' # tl (serializeArray xs)"
  by (cases xs) auto

lemma JSON_stringify_inj: "JSON_stringify a = JSON_stringify b \<longleftrightarrow> a = b"
proof
  assume e: "JSON_stringify a = JSON_stringify b"
  show "a = b"
  proof (cases a)
    case None
    with e show ?thesis by (cases b rule: JSON_stringify.cases) auto
  next
    case (Some v)
    then obtain w where b: "b = Some w" using e by (cases b; cases v) auto
    show ?thesis
    proof (cases v; cases w)
      fix s s' assume "v = JString s" "w = JString s'"
      with e Some b show ?thesis using quote_inj[of s "[]" s' "[]"] by simp
    next
      fix xs ys assume "v = JArray xs" "w = JArray ys"
      with e Some b show ?thesis using serializeArray_inj by simp
    next
      fix s x assume "v = JString s" "w = JBool x"
      with e Some b show ?thesis by (auto simp: quoteJSONString_def split: if_splits)
    next
      fix s x assume "v = JBool x" "w = JString s"
      with e Some b show ?thesis by (auto simp: quoteJSONString_def split: if_splits)
    next
      fix s xs assume "v = JString s" "w = JArray xs"
      with e Some b show ?thesis by (cases xs) (auto simp: quoteJSONString_def)
    next
      fix s xs assume "v = JArray xs" "w = JString s"
      with e Some b show ?thesis by (cases xs) (auto simp: quoteJSONString_def)
    next
      fix x xs assume "v = JBool x" "w = JArray xs"
      with e Some b show ?thesis by (cases xs) (auto split: if_splits)
    next
      fix x xs assume "v = JArray xs" "w = JBool x"
      with e Some b show ?thesis by (cases xs) (auto split: if_splits)
    next
      fix x y assume "v = JBool x" "w = JBool y"
      with e Some b show ?thesis by (auto split: if_splits)
    qed
  qed
qed simp

section \<open>Verification: dirtiness\<close>

lemma differs_iff:
  "(JSON_stringify (getField a f) \<noteq> JSON_stringify (getField b f)) = (getField a f \<noteq> getField b f)"
  by (simp add: JSON_stringify_inj)

lemma hasSectionChanges_Profile:
  "hasSectionChanges Profile st \<longleftrightarrow>
      displayName (saved st) \<noteq> displayName (draft st) \<or>
      username (saved st) \<noteq> username (draft st) \<or>
      profileUrl (saved st) \<noteq> profileUrl (draft st) \<or>
      bio (saved st) \<noteq> bio (draft st) \<or>
      location (saved st) \<noteq> location (draft st) \<or>
      interests (saved st) \<noteq> interests (draft st) \<or>
      status (saved st) \<noteq> status (draft st) \<or>
      photoUrl (saved st) \<noteq> photoUrl (draft st)"
  unfolding hasSectionChanges_def sectionFieldMap_def
  by (simp add: JSON_stringify_inj getField_def)

lemma hasSectionChanges_Privacy:
  "hasSectionChanges Privacy st \<longleftrightarrow>
      visibility (saved st) \<noteq> visibility (draft st) \<or>
      showLocation (saved st) \<noteq> showLocation (draft st) \<or>
      allowSearch (saved st) \<noteq> allowSearch (draft st)"
  unfolding hasSectionChanges_def sectionFieldMap_def
  by (simp add: JSON_stringify_inj getField_def)

lemma hasSectionChanges_Notifications:
  "hasSectionChanges Notifications st \<longleftrightarrow>
      emailNotifications (saved st) \<noteq> emailNotifications (draft st) \<or>
      productUpdates (saved st) \<noteq> productUpdates (draft st) \<or>
      newFollowerAlerts (saved st) \<noteq> newFollowerAlerts (draft st) \<or>
      weeklyDigest (saved st) \<noteq> weeklyDigest (draft st) \<or>
      pauseNotifications (saved st) \<noteq> pauseNotifications (draft st)"
  unfolding hasSectionChanges_def sectionFieldMap_def
  by (simp add: JSON_stringify_inj getField_def)

lemma hasSectionChanges_Appearance:
  "hasSectionChanges Appearance st \<longleftrightarrow> theme (saved st) \<noteq> theme (draft st)"
  unfolding hasSectionChanges_def sectionFieldMap_def
  by (simp add: JSON_stringify_inj getField_def)

lemma hasSectionChanges_Account: "\<not> hasSectionChanges Account st"
  unfolding hasSectionChanges_def sectionFieldMap_def by simp

lemma hasSectionChanges_Help: "\<not> hasSectionChanges Help st"
  unfolding hasSectionChanges_def sectionFieldMap_def by simp

text \<open>
  Claim C4.  For a section with a declared field list, \<open>hasSectionChanges\<close> holds exactly
  when some field of that list has different values in \<open>saved\<close> and \<open>draft\<close> (comparing
  the \<open>JSON.stringify\<close> texts is comparing the values); spelled out for the profile,
  privacy, notifications and appearance sections.  Writing the saved value of \<open>bio\<close> into
  the draft of a clean profile section leaves it clean, and writing any other value makes
  it dirty.
\<close>

theorem hasSectionChanges_fieldwise:
  "(sectionFieldMap sec = Some fs \<longrightarrow>
      (hasSectionChanges sec st \<longleftrightarrow>
         list_ex (\<lambda>f. getField (saved st) f \<noteq> getField (draft st) f) fs))
   \<and> (hasSectionChanges Profile st \<longleftrightarrow>
        displayName (saved st) \<noteq> displayName (draft st) \<or>
        username (saved st) \<noteq> username (draft st) \<or>
        profileUrl (saved st) \<noteq> profileUrl (draft st) \<or>
        bio (saved st) \<noteq> bio (draft st) \<or>
        location (saved st) \<noteq> location (draft st) \<or>
        interests (saved st) \<noteq> interests (draft st) \<or>
        status (saved st) \<noteq> status (draft st) \<or>
        photoUrl (saved st) \<noteq> photoUrl (draft st))
   \<and> (hasSectionChanges Privacy st \<longleftrightarrow>
        visibility (saved st) \<noteq> visibility (draft st) \<or>
        showLocation (saved st) \<noteq> showLocation (draft st) \<or>
        allowSearch (saved st) \<noteq> allowSearch (draft st))
   \<and> (hasSectionChanges Notifications st \<longleftrightarrow>
        emailNotifications (saved st) \<noteq> emailNotifications (draft st) \<or>
        productUpdates (saved st) \<noteq> productUpdates (draft st) \<or>
        newFollowerAlerts (saved st) \<noteq> newFollowerAlerts (draft st) \<or>
        weeklyDigest (saved st) \<noteq> weeklyDigest (draft st) \<or>
        pauseNotifications (saved st) \<noteq> pauseNotifications (draft st))
   \<and> (hasSectionChanges Appearance st \<longleftrightarrow> theme (saved st) \<noteq> theme (draft st))
   \<and> (\<not> hasSectionChanges Profile st \<longrightarrow>
        \<not> hasSectionChanges Profile (st\<lparr>draft := (draft st)\<lparr>bio := bio (saved st)\<rparr>\<rparr>))
   \<and> (x \<noteq> bio (saved st) \<longrightarrow>
        hasSectionChanges Profile (st\<lparr>draft := (draft st)\<lparr>bio := x\<rparr>\<rparr>))"
proof -
  have gen: "sectionFieldMap sec = Some fs \<longrightarrow>
      (hasSectionChanges sec st \<longleftrightarrow>
         list_ex (\<lambda>f. getField (saved st) f \<noteq> getField (draft st) f) fs)"
    by (simp add: hasSectionChanges_def differs_iff)
  have noop: "\<not> hasSectionChanges Profile st \<longrightarrow>
        \<not> hasSectionChanges Profile (st\<lparr>draft := (draft st)\<lparr>bio := bio (saved st)\<rparr>\<rparr>)"
    by (simp add: hasSectionChanges_Profile)
  have edit: "x \<noteq> bio (saved st) \<longrightarrow>
        hasSectionChanges Profile (st\<lparr>draft := (draft st)\<lparr>bio := x\<rparr>\<rparr>)"
    by (auto simp add: hasSectionChanges_Profile)
  show ?thesis
    using gen noop edit hasSectionChanges_Profile[of st] hasSectionChanges_Privacy[of st]
      hasSectionChanges_Notifications[of st] hasSectionChanges_Appearance[of st]
    by blast
qed

theorem hasSectionChanges_fieldwise_witness:
  "\<not> hasSectionChanges Profile examplePage
   \<and> \<not> hasSectionChanges Profile
         (examplePage\<lparr>draft := (draft examplePage)\<lparr>bio := bio (saved examplePage)\<rparr>\<rparr>)
   \<and> hasSectionChanges Profile (examplePage\<lparr>draft := (draft examplePage)\<lparr>bio := ''xy''\<rparr>\<rparr>)
   \<and> bio (saved examplePage) = ''x''"
  using hasSectionChanges_fieldwise[of Profile
          "[''displayName'', ''username'', ''profileUrl'', ''bio'', ''location'',
            ''interests'', ''status'', ''photoUrl'']" examplePage "''xy''"]
  by (simp add: examplePage_def exampleValues_def)

section \<open>Verification: the navigation guard\<close>

lemma draft_eq_saved_clean: "draft st = saved st \<Longrightarrow> \<not> hasSectionChanges sec st"
  by (simp add: hasSectionChanges_def list_ex_iff)





lemma hasSectionChanges_drafts [simp]:
  "hasSectionChanges sec (st\<lparr>passwordDraft := pd\<rparr>) = hasSectionChanges sec st"
  "hasSectionChanges sec (st\<lparr>emailDraft := ed\<rparr>) = hasSectionChanges sec st"
  by (simp_all add: hasSectionChanges_def)

text \<open>
  Claim C10.  The account and help sections are never dirty: they have no entry in the
  section field map.  So with one of them active, whatever the password and email forms
  hold, a section switch goes through at once and neither it nor "back to list" nor the
  back button opens the discard prompt; the two forms are no part of what
  \<open>hasSectionChanges\<close> reads.
\<close>

theorem account_help_never_prompt:
  "\<not> hasSectionChanges Account st \<and> \<not> hasSectionChanges Help st
   \<and> (activeSection st = Account \<or> activeSection st = Help \<longrightarrow>
        \<not> hasSectionChanges (activeSection st) (st\<lparr>passwordDraft := pd, emailDraft := ed\<rparr>)
        \<and> discardOpen (handleSectionChange target (st\<lparr>passwordDraft := pd, emailDraft := ed\<rparr>))
            = discardOpen st
        \<and> pendingSection (handleSectionChange target (st\<lparr>passwordDraft := pd, emailDraft := ed\<rparr>))
            = pendingSection st
        \<and> activeSection (handleSectionChange target (st\<lparr>passwordDraft := pd, emailDraft := ed\<rparr>))
            = target
        \<and> discardOpen (handleBackToList (st\<lparr>passwordDraft := pd, emailDraft := ed\<rparr>))
            = discardOpen st
        \<and> showMobileList (handleBackToList (st\<lparr>passwordDraft := pd, emailDraft := ed\<rparr>))
        \<and> discardOpen (handleBackClick e (st\<lparr>passwordDraft := pd, emailDraft := ed\<rparr>))
            = discardOpen st
        \<and> route (handleBackClick e (st\<lparr>passwordDraft := pd, emailDraft := ed\<rparr>))
            = ''/profile'')"
  using hasSectionChanges_Account hasSectionChanges_Help
  by (auto simp: handleSectionChange_def handleBackToList_def handleBackClick_def
                 applySection_def Let_def)

theorem account_help_never_prompt_witness:
  "activeSection (handleSectionChange Privacy
      (examplePage\<lparr>activeSection := Account,
         passwordDraft := \<lparr>pd_current = ''old'', pd_next = ''newpassword'', pd_confirm = []\<rparr>,
         emailDraft := \<lparr>ed_email = ''m@x.io'', ed_password = []\<rparr>\<rparr>)) = Privacy
   \<and> \<not> discardOpen (handleSectionChange Privacy
      (examplePage\<lparr>activeSection := Account,
         passwordDraft := \<lparr>pd_current = ''old'', pd_next = ''newpassword'', pd_confirm = []\<rparr>,
         emailDraft := \<lparr>ed_email = ''m@x.io'', ed_password = []\<rparr>\<rparr>))"
  using account_help_never_prompt[where st = "examplePage\<lparr>activeSection := Account\<rparr>"
      and pd = "\<lparr>pd_current = ''old'', pd_next = ''newpassword'', pd_confirm = []\<rparr>"
      and ed = "\<lparr>ed_email = ''m@x.io'', ed_password = []\<rparr>" and target = Privacy]
  by (simp add: examplePage_def)

section \<open>Verification: the availability checker\<close>

lemma handleChar_unreserved: "handleChar c \<Longrightarrow> uriUnreserved c"
  by (auto simp: handleChar_def uriUnreserved_def Let_def)

lemma encodeURIComponent_id: "list_all handleChar s \<Longrightarrow> encodeURIComponent s = s"
  by (induction s) (simp_all add: encodeURIComponent_def encodeChar_def handleChar_unreserved Let_def)

lemma encodeURIComponent_handle: "test usernamePattern s \<Longrightarrow> encodeURIComponent s = s"
  by (rule encodeURIComponent_id)
     (simp add: usernamePattern_spec spec_handle_def list_all_iff handleChar_spec)

lemma begin_neutral:
  "trim v = [] \<or> \<not> test usernamePattern (trim v) \<Longrightarrow>
     checkAvailability_begin field v st = (Done Neutral, setAvailability field Neutral st)"
  by (auto simp: checkAvailability_begin_def Let_def)

lemma begin_unchanged:
  "test usernamePattern (trim v) \<Longrightarrow>
   toLowerCase (trim v) = toLowerCase (trim (savedHandle field st)) \<Longrightarrow>
     checkAvailability_begin field v st = (Done Success, setAvailability field Success st)"
  using test_usernamePattern_trim[of "trim v"]
  by (auto simp: checkAvailability_begin_def Let_def savedHandle_def toLowerCase_def)

lemma begin_reserved:
  "test usernamePattern (trim v) \<Longrightarrow>
   toLowerCase (trim v) \<noteq> toLowerCase (trim (savedHandle field st)) \<Longrightarrow>
   toLowerCase (trim v) \<in> set RESERVED_HANDLES \<Longrightarrow>
     checkAvailability_begin field v st = (Done Error, setAvailability field Error st)"
  using test_usernamePattern_trim[of "trim v"]
  by (auto simp: checkAvailability_begin_def Let_def savedHandle_def)

lemma begin_no_token:
  "test usernamePattern (trim v) \<Longrightarrow>
   toLowerCase (trim v) \<noteq> toLowerCase (trim (savedHandle field st)) \<Longrightarrow>
   toLowerCase (trim v) \<notin> set RESERVED_HANDLES \<Longrightarrow> token st = [] \<Longrightarrow>
     checkAvailability_begin field v st = (Done Neutral, setAvailability field Neutral st)"
  using test_usernamePattern_trim[of "trim v"]
  by (auto simp: checkAvailability_begin_def Let_def savedHandle_def)

lemma begin_lookup:
  "test usernamePattern (trim v) \<Longrightarrow>
   toLowerCase (trim v) \<noteq> toLowerCase (trim (savedHandle field st)) \<Longrightarrow>
   toLowerCase (trim v) \<notin> set RESERVED_HANDLES \<Longrightarrow> token st \<noteq> [] \<Longrightarrow>
     checkAvailability_begin field v st =
       (Awaiting (availabilityRequestRef st field + 1),
        st\<lparr>availabilityRequestRef :=
              (availabilityRequestRef st)(field := availabilityRequestRef st field + 1),
           sent := sent st @ [Request ''GET'' (lookupEndpoint field (trim v)) True []]\<rparr>)"
  using test_usernamePattern_trim[of "trim v"]
  by (auto simp: checkAvailability_begin_def Let_def savedHandle_def lookupEndpoint_def
        encodeURIComponent_handle)

lemma resume_current:
  "availabilityRequestRef st field = n \<Longrightarrow>
     checkAvailability_resume field n outcome st =
       (outcomeStatus outcome, setAvailability field (outcomeStatus outcome) st)"
  by (auto simp: checkAvailability_resume_def outcomeStatus_def split: api_result.splits)

lemma resume_stale:
  "availabilityRequestRef st field \<noteq> n \<Longrightarrow>
     checkAvailability_resume field n outcome st = (Neutral, st)"
  by (auto simp: checkAvailability_resume_def split: api_result.splits)

lemma alice_trim: "trim ''alice'' = ''alice''" by (simp add: trim_def isWhiteSpace_def)
lemma alice_handle: "test usernamePattern ''alice''"
  by (simp add: usernamePattern_spec spec_handle_def isLetter_def isDigit_def)
lemma alice_lower: "toLowerCase ''alice'' = ''alice''" by (simp add: toLowerCase_def lowerChar_def)
lemma mika_normalized: "toLowerCase (trim '' MIKA '') = ''mika''"
  by (simp add: toLowerCase_def lowerChar_def trim_def isWhiteSpace_def char_of_def bit_iff_odd)

text \<open>
  Claim C3, as stated, fails: a well-formed value that is neither the saved one nor
  reserved does not always lead to a lookup.  Without a session token the call returns
  \<open>neutral\<close> and sends nothing, even though the server would have answered that the name
  is available.
\<close>

theorem checkAvailability_no_token_counterexample:
  "trim ''alice'' \<noteq> [] \<and> test usernamePattern (trim ''alice'')
   \<and> toLowerCase (trim ''alice'') \<noteq> username (saved (examplePage\<lparr>token := []\<rparr>))
   \<and> toLowerCase (trim ''alice'') \<notin> set RESERVED_HANDLES
   \<and> fst (checkAvailability Username ''alice''
             (Resolved (Some \<lparr>available = Some True\<rparr>)) (examplePage\<lparr>token := []\<rparr>)) = Neutral
   \<and> sent (snd (checkAvailability Username ''alice''
             (Resolved (Some \<lparr>available = Some True\<rparr>)) (examplePage\<lparr>token := []\<rparr>)))
       = sent (examplePage\<lparr>token := []\<rparr>)"
proof -
  have t: "test usernamePattern (trim ''alice'')" by (simp add: alice_trim alice_handle)
  have b: "checkAvailability_begin Username ''alice'' (examplePage\<lparr>token := []\<rparr>)
             = (Done Neutral, setAvailability Username Neutral (examplePage\<lparr>token := []\<rparr>))"
    by (rule begin_no_token[OF t])
       (simp_all add: alice_trim alice_lower savedHandle_def examplePage_def exampleValues_def
          RESERVED_HANDLES_def trim_def isWhiteSpace_def toLowerCase_def lowerChar_def)
  have u: "username (saved examplePage) = ''mika''"
    by (simp add: examplePage_def exampleValues_def)
  show ?thesis using t
    by (simp add: checkAvailability_def b checkAvailability_finish_def setAvailability_def
          alice_trim alice_lower u RESERVED_HANDLES_def)
qed


lemma checkAvailability_lookup:
  assumes "test usernamePattern (trim v)"
      "toLowerCase (trim v) \<noteq> toLowerCase (trim (savedHandle field st))"
      "toLowerCase (trim v) \<notin> set RESERVED_HANDLES" "token st \<noteq> []"
  shows "checkAvailability field v outcome st =
           (outcomeStatus outcome,
            st\<lparr>availabilityRequestRef :=
                  (availabilityRequestRef st)(field := availabilityRequestRef st field + 1),
               sent := sent st @ [Request ''GET'' (lookupEndpoint field (trim v)) True []],
               availability := (availability st)(field := outcomeStatus outcome)\<rparr>)"
  unfolding checkAvailability_def begin_lookup[OF assms]
  by (simp add: checkAvailability_finish_def resume_current setAvailability_def)

text \<open>
  Claim C3, amended.  \<open>checkAvailability\<close> trims the value and lower-cases it.  If the
  trimmed value is empty or not a handle, the result is \<open>neutral\<close>; else if the normalized
  value equals the trimmed, lower-cased saved value of the field, \<open>success\<close>; else if it is
  a reserved handle, \<open>error\<close>; else if no token is held, \<open>neutral\<close>: in these four cases
  only the field's availability flag changes and no request is sent.  Otherwise the
  lookup is sent with the token under the field's next sequence number, and when it
  ends unsuperseded the result, committed to the flag, is \<open>success\<close> for an affirmative
  answer, \<open>error\<close> for any other answer and \<open>neutral\<close> for a failed request.  A lookup
  that has been superseded ends with \<open>neutral\<close> and changes nothing.
\<close>

theorem checkAvailability_cases:
  "(trim v = [] \<or> \<not> spec_handle (trim v) \<longrightarrow>
      checkAvailability field v outcome st = (Neutral, setAvailability field Neutral st))
   \<and> (spec_handle (trim v)
        \<and> toLowerCase (trim v) = toLowerCase (trim (savedHandle field st)) \<longrightarrow>
      checkAvailability field v outcome st = (Success, setAvailability field Success st))
   \<and> (spec_handle (trim v)
        \<and> toLowerCase (trim v) \<noteq> toLowerCase (trim (savedHandle field st))
        \<and> toLowerCase (trim v) \<in> set RESERVED_HANDLES \<longrightarrow>
      checkAvailability field v outcome st = (Error, setAvailability field Error st))
   \<and> (spec_handle (trim v)
        \<and> toLowerCase (trim v) \<noteq> toLowerCase (trim (savedHandle field st))
        \<and> toLowerCase (trim v) \<notin> set RESERVED_HANDLES \<and> token st = [] \<longrightarrow>
      checkAvailability field v outcome st = (Neutral, setAvailability field Neutral st))
   \<and> sent (setAvailability field s st) = sent st
   \<and> (spec_handle (trim v)
        \<and> toLowerCase (trim v) \<noteq> toLowerCase (trim (savedHandle field st))
        \<and> toLowerCase (trim v) \<notin> set RESERVED_HANDLES \<and> token st \<noteq> [] \<longrightarrow>
      checkAvailability_begin field v st =
        (Awaiting (availabilityRequestRef st field + 1),
         st\<lparr>availabilityRequestRef :=
               (availabilityRequestRef st)(field := availabilityRequestRef st field + 1),
            sent := sent st @ [Request ''GET'' (lookupEndpoint field (trim v)) True []]\<rparr>)
      \<and> fst (checkAvailability field v (Resolved (Some \<lparr>available = Some True\<rparr>)) st) = Success
      \<and> fst (checkAvailability field v (Resolved (Some \<lparr>available = Some False\<rparr>)) st) = Error
      \<and> fst (checkAvailability field v (Resolved (Some \<lparr>available = None\<rparr>)) st) = Error
      \<and> fst (checkAvailability field v (Resolved None) st) = Error
      \<and> fst (checkAvailability field v (Rejected e) st) = Neutral
      \<and> availability (snd (checkAvailability field v outcome st)) field
          = fst (checkAvailability field v outcome st))
   \<and> (availabilityRequestRef st field \<noteq> n \<longrightarrow>
        checkAvailability_resume field n outcome st = (Neutral, st))"
proof -
  have dn: "\<And>s. checkAvailability_begin field v st = (Done s, setAvailability field s st)
                \<Longrightarrow> checkAvailability field v outcome st = (s, setAvailability field s st)"
    by (simp add: checkAvailability_def checkAvailability_finish_def)
  have c1: "trim v = [] \<or> \<not> spec_handle (trim v) \<longrightarrow>
      checkAvailability field v outcome st = (Neutral, setAvailability field Neutral st)"
    using begin_neutral[of v field st] dn by (auto simp: usernamePattern_spec)
  have c2: "spec_handle (trim v)
        \<and> toLowerCase (trim v) = toLowerCase (trim (savedHandle field st)) \<longrightarrow>
      checkAvailability field v outcome st = (Success, setAvailability field Success st)"
    using begin_unchanged[of v field st] dn by (auto simp: usernamePattern_spec)
  have c3: "spec_handle (trim v)
        \<and> toLowerCase (trim v) \<noteq> toLowerCase (trim (savedHandle field st))
        \<and> toLowerCase (trim v) \<in> set RESERVED_HANDLES \<longrightarrow>
      checkAvailability field v outcome st = (Error, setAvailability field Error st)"
    using begin_reserved[of v field st] dn by (auto simp: usernamePattern_spec)
  have c4: "spec_handle (trim v)
        \<and> toLowerCase (trim v) \<noteq> toLowerCase (trim (savedHandle field st))
        \<and> toLowerCase (trim v) \<notin> set RESERVED_HANDLES \<and> token st = [] \<longrightarrow>
      checkAvailability field v outcome st = (Neutral, setAvailability field Neutral st)"
    using begin_no_token[of v field st] dn by (auto simp: usernamePattern_spec)
  have c5: "sent (setAvailability field s st) = sent st"
    by (simp add: setAvailability_def)
  have c6: "spec_handle (trim v)
        \<and> toLowerCase (trim v) \<noteq> toLowerCase (trim (savedHandle field st))
        \<and> toLowerCase (trim v) \<notin> set RESERVED_HANDLES \<and> token st \<noteq> [] \<longrightarrow>
      checkAvailability_begin field v st =
        (Awaiting (availabilityRequestRef st field + 1),
         st\<lparr>availabilityRequestRef :=
               (availabilityRequestRef st)(field := availabilityRequestRef st field + 1),
            sent := sent st @ [Request ''GET'' (lookupEndpoint field (trim v)) True []]\<rparr>)
      \<and> fst (checkAvailability field v (Resolved (Some \<lparr>available = Some True\<rparr>)) st) = Success
      \<and> fst (checkAvailability field v (Resolved (Some \<lparr>available = Some False\<rparr>)) st) = Error
      \<and> fst (checkAvailability field v (Resolved (Some \<lparr>available = None\<rparr>)) st) = Error
      \<and> fst (checkAvailability field v (Resolved None) st) = Error
      \<and> fst (checkAvailability field v (Rejected e) st) = Neutral
      \<and> availability (snd (checkAvailability field v outcome st)) field
          = fst (checkAvailability field v outcome st)"
    using begin_lookup[of v field st]
    by (simp add: usernamePattern_spec checkAvailability_lookup outcomeStatus_def)
  have c7: "availabilityRequestRef st field \<noteq> n \<longrightarrow>
        checkAvailability_resume field n outcome st = (Neutral, st)"
    by (simp add: resume_stale)
  from c1 c2 c3 c4 c5 c6 c7 show ?thesis by blast
qed


lemma MIKA_trim: "trim '' MIKA '' = ''MIKA''" by (simp add: trim_def isWhiteSpace_def)
lemma MIKA_handle: "spec_handle ''MIKA''" by (simp add: spec_handle_def isLetter_def isDigit_def)
lemma MIKA_lower: "toLowerCase ''MIKA'' = ''mika''"
  by (simp add: toLowerCase_def lowerChar_def char_of_def bit_iff_odd)
lemma example_saved_username: "toLowerCase (trim (savedHandle Username examplePage)) = ''mika''"
  by (simp add: savedHandle_def examplePage_def exampleValues_def trim_def isWhiteSpace_def
        toLowerCase_def lowerChar_def)

theorem checkAvailability_cases_witness:
  "checkAvailability Username '' MIKA '' (Resolved None) examplePage
     = (Success, setAvailability Username Success examplePage)
   \<and> sent (setAvailability Username Success examplePage) = sent examplePage"
  using checkAvailability_cases[where v = "'' MIKA ''" and field = Username
          and st = examplePage and outcome = "Resolved None" and s = Success]
  by (simp add: MIKA_trim MIKA_handle MIKA_lower example_saved_username)

lemma savedHandle_frame:
  "savedHandle f (st\<lparr>availabilityRequestRef := R\<rparr>) = savedHandle f st"
  "savedHandle f (st\<lparr>availability := A\<rparr>) = savedHandle f st"
  "savedHandle f (st\<lparr>sent := S\<rparr>) = savedHandle f st"
  "savedHandle f (st\<lparr>isSaving := b\<rparr>) = savedHandle f st"
  "savedHandle f (st\<lparr>profileErrors := es\<rparr>) = savedHandle f st"
  by (simp_all add: savedHandle_def)

lemma admin_alice_eval: "trim ''admin'' = ''admin''" "toLowerCase ''admin'' = ''admin''"
  "test usernamePattern ''admin''" "test usernamePattern ''alice''"
  by (simp_all add: trim_def isWhiteSpace_def toLowerCase_def lowerChar_def
        usernamePattern_spec spec_handle_def isLetter_def isDigit_def)

text \<open>
  Claim C1 does not hold of the code.  Only a call that reaches the lookup increments
  the sequence counter; a call that ends at once (here the reserved handle \<open>admin\<close>, which
  sets \<open>error\<close>) leaves it alone.  So the answer to the earlier lookup for \<open>alice\<close>, arriving
  after the later call, still carries the latest sequence number and overwrites the
  later call's status with \<open>success\<close>.
\<close>

theorem stale_lookup_overwrites_later_check:
  "availability
     (foldl avail_step examplePage [Invoke Username ''alice'', Invoke Username ''admin''])
     Username = Error
   \<and> availability
       (foldl avail_step examplePage
          [Invoke Username ''alice'', Invoke Username ''admin'',
           Arrive Username 1 (Resolved (Some \<lparr>available = Some True\<rparr>))])
       Username = Success"
proof -
  define st1 where "st1 = snd (checkAvailability_begin Username ''alice'' examplePage)"
  define st2 where "st2 = snd (checkAvailability_begin Username ''admin'' st1)"
  have tok: "token examplePage \<noteq> []" by (simp add: examplePage_def)
  have "checkAvailability_begin Username ''alice'' examplePage
          = (Awaiting (availabilityRequestRef examplePage Username + 1),
             examplePage\<lparr>availabilityRequestRef :=
                  (availabilityRequestRef examplePage)
                    (Username := availabilityRequestRef examplePage Username + 1),
                sent := sent examplePage
                  @ [Request ''GET'' (lookupEndpoint Username (trim ''alice'')) True []]\<rparr>)"
    by (rule begin_lookup) (simp_all add: alice_trim alice_handle alice_lower example_saved_username tok RESERVED_HANDLES_def)
  then have st1: "availabilityRequestRef st1 Username = 1"
       "savedHandle Username st1 = savedHandle Username examplePage"
    by (simp_all add: st1_def savedHandle_frame) (simp add: examplePage_def)
  have "checkAvailability_begin Username ''admin'' st1
              = (Done Error, setAvailability Username Error st1)"
    by (rule begin_reserved) (simp_all add: admin_alice_eval st1 example_saved_username RESERVED_HANDLES_def)
  then have st2: "st2 = setAvailability Username Error st1"
    by (simp add: st2_def)
  have r: "availabilityRequestRef st2 Username = 1"
    by (simp add: st2 setAvailability_def st1)
  have f2: "foldl avail_step examplePage [Invoke Username ''alice'', Invoke Username ''admin'']
              = st2"
    by (simp add: st2_def st1_def)
  have f3: "foldl avail_step examplePage
          [Invoke Username ''alice'', Invoke Username ''admin'',
           Arrive Username 1 (Resolved (Some \<lparr>available = Some True\<rparr>))]
              = snd (checkAvailability_resume Username 1
                       (Resolved (Some \<lparr>available = Some True\<rparr>)) st2)"
    by (simp add: st2_def st1_def)
  show ?thesis
    unfolding f2 f3 resume_current[OF r]
    by (simp add: st2 setAvailability_def outcomeStatus_def)
qed

section \<open>Verification: saving\<close>

lemma lookupOnly_refl: "lookupOnly st st"
  unfolding lookupOnly_def
  by (intro exI[of _ "availability st"] exI[of _ "availabilityRequestRef st"] exI[of _ "[]"])
     simp

lemma lookupOnly_trans:
  assumes "lookupOnly a b" "lookupOnly b c"
  shows "lookupOnly a c"
proof -
  from assms(1) obtain A R G where
    b: "b = a\<lparr>availability := A, availabilityRequestRef := R, sent := sent a @ G\<rparr>"
    and g: "list_all (\<lambda>r. \<not> isMutating r) G" unfolding lookupOnly_def by blast
  from assms(2) obtain A' R' G' where
    c: "c = b\<lparr>availability := A', availabilityRequestRef := R', sent := sent b @ G'\<rparr>"
    and g': "list_all (\<lambda>r. \<not> isMutating r) G'" unfolding lookupOnly_def by blast
  have "c = a\<lparr>availability := A', availabilityRequestRef := R', sent := sent a @ (G @ G')\<rparr>"
    by (simp add: b c)
  moreover have "list_all (\<lambda>r. \<not> isMutating r) (G @ G')" using g g' by simp
  ultimately show ?thesis unfolding lookupOnly_def by blast
qed

lemma lookupOnly_setAvailability: "lookupOnly st (setAvailability f s st)"
  unfolding lookupOnly_def
  by (intro exI[of _ "(availability st)(f := s)"] exI[of _ "availabilityRequestRef st"]
        exI[of _ "[]"])
     (simp add: setAvailability_def)

lemma lookupOnly_frame:
  assumes "lookupOnly st st'"
  shows "draft st' = draft st" "saved st' = saved st" "token st' = token st"
    "isSaving st' = isSaving st" "profileErrors st' = profileErrors st"
    "toastLog st' = toastLog st" "user st' = user st" "interestInput st' = interestInput st"
    "list_all (\<lambda>r. \<not> isMutating r) (newRequests st st')"
    "sent st' = sent st @ newRequests st st'"
  using assms unfolding lookupOnly_def newRequests_def by auto

lemma lookupOnly_begin: "lookupOnly st (snd (checkAvailability_begin f v st))"
proof -
  have "lookupOnly st (st\<lparr>availabilityRequestRef := R, sent := sent st @ [Request ''GET'' p True []]\<rparr>)"
    for R p
    unfolding lookupOnly_def
    by (intro exI[of _ "availability st"] exI[of _ R] exI[of _ "[Request ''GET'' p True []]"])
       simp
  then show ?thesis
    by (simp add: checkAvailability_begin_def Let_def lookupOnly_setAvailability)
qed

lemma lookupOnly_resume: "lookupOnly st (snd (checkAvailability_resume f n outcome st))"
  by (cases "availabilityRequestRef st f = n")
     (simp_all add: resume_current resume_stale lookupOnly_setAvailability lookupOnly_refl)

lemma lookupOnly_finish: "lookupOnly st (snd (checkAvailability_finish f ph outcome st))"
  by (cases ph) (simp_all add: checkAvailability_finish_def lookupOnly_refl lookupOnly_resume)

lemma begin_ref_other:
  "g \<noteq> f \<Longrightarrow> availabilityRequestRef (snd (checkAvailability_begin f v st)) g
                 = availabilityRequestRef st g"
  by (auto simp: checkAvailability_begin_def Let_def setAvailability_def)

lemma begin_ref_awaiting:
  "fst (checkAvailability_begin f v st) = Awaiting n \<Longrightarrow>
     availabilityRequestRef (snd (checkAvailability_begin f v st)) f = n"
  by (auto simp: checkAvailability_begin_def Let_def setAvailability_def split: if_splits)

lemma begin_phase_cong:
  "saved st' = saved st \<Longrightarrow> token st' = token st \<Longrightarrow>
   availabilityRequestRef st' f = availabilityRequestRef st f \<Longrightarrow>
     fst (checkAvailability_begin f v st') = fst (checkAvailability_begin f v st)"
  by (auto simp: checkAvailability_begin_def Let_def)

lemma finish_status:
  "(\<And>n. ph = Awaiting n \<Longrightarrow> availabilityRequestRef st f = n) \<Longrightarrow>
     fst (checkAvailability_finish f ph outcome st) = phaseStatus ph outcome"
  by (cases ph) (simp_all add: checkAvailability_finish_def phaseStatus_def resume_current)

lemma finish_ref:
  "availabilityRequestRef (snd (checkAvailability_finish f ph outcome st)) g
     = availabilityRequestRef st g"
  by (cases ph; cases "availabilityRequestRef st f = (case ph of Awaiting n \<Rightarrow> n | _ \<Rightarrow> 0)")
     (simp_all add: checkAvailability_finish_def resume_current resume_stale setAvailability_def)

lemma checkAvailability_status:
  "fst (checkAvailability f v outcome st)
     = phaseStatus (fst (checkAvailability_begin f v st)) outcome"
  using finish_status[of "fst (checkAvailability_begin f v st)"
          "snd (checkAvailability_begin f v st)" f outcome] begin_ref_awaiting[of f v st]
  by (simp add: checkAvailability_def case_prod_beta)


lemma validateAvailability_result:
  "fst (validateAvailability uo po st) =
     (phaseStatus (fst (checkAvailability_begin Username (username (draft st)) st)) uo \<noteq> Error
      \<and> phaseStatus (fst (checkAvailability_begin ProfileUrl (profileUrl (draft st)) st)) po
            \<noteq> Error)"
  and validateAvailability_lookupOnly: "lookupOnly st (snd (validateAvailability uo po st))"
proof -
  define b1 where "b1 = checkAvailability_begin Username (username (draft st)) st"
  define b2 where "b2 = checkAvailability_begin ProfileUrl (profileUrl (draft st)) (snd b1)"
  define f1 where "f1 = checkAvailability_finish Username (fst b1) uo (snd b2)"
  define f2 where "f2 = checkAvailability_finish ProfileUrl (fst b2) po (snd f1)"
  have va: "validateAvailability uo po st = (fst f1 \<noteq> Error \<and> fst f2 \<noteq> Error, snd f2)"
    by (simp add: validateAvailability_def case_prod_beta b1_def b2_def f1_def f2_def)
  have l1: "lookupOnly st (snd b1)" unfolding b1_def by (rule lookupOnly_begin)
  have l2: "lookupOnly (snd b1) (snd b2)" unfolding b2_def by (rule lookupOnly_begin)
  have l3: "lookupOnly (snd b2) (snd f1)" unfolding f1_def by (rule lookupOnly_finish)
  have l4: "lookupOnly (snd f1) (snd f2)" unfolding f2_def by (rule lookupOnly_finish)
  have p2: "fst b2 = fst (checkAvailability_begin ProfileUrl (profileUrl (draft st)) st)"
    unfolding b2_def
    by (rule begin_phase_cong)
       (use lookupOnly_frame[OF l1] in \<open>simp_all add: b1_def begin_ref_other\<close>)
  have r1: "fst b1 = Awaiting n \<Longrightarrow> availabilityRequestRef (snd b2) Username = n" for n
    using begin_ref_awaiting[of Username "username (draft st)" st n]
    by (simp add: b2_def begin_ref_other b1_def)
  have r2: "fst b2 = Awaiting n \<Longrightarrow> availabilityRequestRef (snd f1) ProfileUrl = n" for n
    using begin_ref_awaiting[of ProfileUrl "profileUrl (draft st)" "snd b1" n]
    by (simp add: f1_def finish_ref b2_def)
  have s1: "fst f1 = phaseStatus (fst b1) uo"
    unfolding f1_def by (rule finish_status) (rule r1)
  have s2: "fst f2 = phaseStatus (fst b2) po"
    unfolding f2_def by (rule finish_status) (rule r2)
  show "fst (validateAvailability uo po st) =
     (phaseStatus (fst (checkAvailability_begin Username (username (draft st)) st)) uo \<noteq> Error
      \<and> phaseStatus (fst (checkAvailability_begin ProfileUrl (profileUrl (draft st)) st)) po
            \<noteq> Error)"
    by (simp add: va s1 s2 p2) (simp add: b1_def)
  show "lookupOnly st (snd (validateAvailability uo po st))"
    unfolding va snd_conv
    by (rule lookupOnly_trans[OF lookupOnly_trans[OF lookupOnly_trans[OF l1 l2] l3] l4])
qed


lemma validateProfile_snd:
  "snd (validateProfile st) = st\<lparr>profileErrors := profileErrors (snd (validateProfile st))\<rparr>"
  by (simp add: validateProfile_def Let_def)

lemma validateProfile_fst: "fst (validateProfile st) = (profileErrors (snd (validateProfile st)) = [])"
  by (simp add: validateProfile_def Let_def)

lemma savingState_frame:
  "draft (savingState st) = draft st" "saved (savingState st) = saved st"
  "token (savingState st) = token st" "sent (savingState st) = sent st"
  "availabilityRequestRef (savingState st) = availabilityRequestRef st"
  "user (savingState st) = user st"
  by (simp_all add: savingState_def validateProfile_def Let_def)

lemma savingState_gate:
  "fst (validateAvailability uo po (savingState st)) =
     (fst (checkAvailability Username (username (draft st)) uo st) \<noteq> Error
      \<and> fst (checkAvailability ProfileUrl (profileUrl (draft st)) po st) \<noteq> Error)"
proof -
  have "fst (checkAvailability_begin f v (savingState st)) = fst (checkAvailability_begin f v st)"
    for f v
    by (rule begin_phase_cong) (simp_all add: savingState_frame)
  then show ?thesis
    by (simp add: validateAvailability_result checkAvailability_status savingState_frame)
qed

lemma saveProfile_invalid:
  "\<not> fst (validateProfile st) \<Longrightarrow> saveProfile env st = snd (validateProfile st)"
  by (simp add: saveProfile_def case_prod_beta)

lemma saveProfile_blocked:
  "fst (validateProfile st) \<Longrightarrow>
   \<not> fst (validateAvailability (o_username env) (o_profileUrl env) (savingState st)) \<Longrightarrow>
     saveProfile env st =
       (snd (validateAvailability (o_username env) (o_profileUrl env) (savingState st)))
         \<lparr>isSaving := False\<rparr>"
  by (simp add: saveProfile_def case_prod_beta Let_def savingState_def)

lemma saveProfile_expired:
  "fst (validateProfile st) \<Longrightarrow>
   fst (validateAvailability (o_username env) (o_profileUrl env) (savingState st)) \<Longrightarrow>
   token st = [] \<Longrightarrow>
     saveProfile env st =
       (pageToast ''Session expired. Please log in again.'' ''warning''
          (snd (validateAvailability (o_username env) (o_profileUrl env) (savingState st))))
         \<lparr>isSaving := False\<rparr>"
  by (simp add: saveProfile_def case_prod_beta Let_def savingState_def)

lemma setUser_frame:
  "sent (setUser u st) = sent st"
  "saved (setUser u st) = buildDefaults (baseProfile (Some u))"
  "draft (setUser u st) = buildDefaults (baseProfile (Some u))"
  "user (setUser u st) = Some u"
  by (simp_all add: setUser_def defaultsEffect_def Let_def)

lemma saveProfile_sent:
  assumes "fst (validateProfile st)"
    "fst (validateAvailability (o_username env) (o_profileUrl env) (savingState st))"
    "token st \<noteq> []"
  shows "sent (saveProfile env st) =
       sent (snd (validateAvailability (o_username env) (o_profileUrl env) (savingState st)))
       @ [Request ''PATCH'' ''/auth/profile/'' True (profilePayload (draft st))]"
    and "draft (saveProfile env st) =
       (case o_patch env of
          Resolved data \<Rightarrow>
            (case r_user data of
               Some u \<Rightarrow> buildDefaults (baseProfile (Some u))
             | None \<Rightarrow>
                (case r_profile data of
                   Some profile \<Rightarrow> mergeProfileFields profile (saved st) (draft st)
                 | None \<Rightarrow> draft st))
        | Rejected error \<Rightarrow> draft st)"
    and "saved (saveProfile env st) =
       (case o_patch env of
          Resolved data \<Rightarrow>
            (case r_user data of
               Some u \<Rightarrow> buildDefaults (baseProfile (Some u))
             | None \<Rightarrow>
                (case r_profile data of
                   Some profile \<Rightarrow> mergeProfileFields profile (saved st) (saved st)
                 | None \<Rightarrow> saved st))
        | Rejected error \<Rightarrow> saved st)"
proof -
  let ?st3 = "snd (validateAvailability (o_username env) (o_profileUrl env) (savingState st))"
  have fr: "draft ?st3 = draft st" "saved ?st3 = saved st"
    using lookupOnly_frame[OF validateAvailability_lookupOnly[of "savingState st" "o_username env" "o_profileUrl env"]]
    by (simp_all add: savingState_frame)
  show "sent (saveProfile env st) =
       sent ?st3
       @ [Request ''PATCH'' ''/auth/profile/'' True (profilePayload (draft st))]"
    using assms
    by (simp add: saveProfile_def case_prod_beta Let_def savingState_def[symmetric]
          profilePayload_def issue_def pageToast_def setUserFrom_def setUser_frame
          split: api_result.splits option.splits)
  show "draft (saveProfile env st) =
       (case o_patch env of
          Resolved data \<Rightarrow>
            (case r_user data of
               Some u \<Rightarrow> buildDefaults (baseProfile (Some u))
             | None \<Rightarrow>
                (case r_profile data of
                   Some profile \<Rightarrow> mergeProfileFields profile (saved st) (draft st)
                 | None \<Rightarrow> draft st))
        | Rejected error \<Rightarrow> draft st)"
    using assms fr
    by (simp add: saveProfile_def case_prod_beta Let_def savingState_def[symmetric]
          issue_def pageToast_def setUserFrom_def setUser_frame
          split: api_result.splits option.splits)
  show "saved (saveProfile env st) =
       (case o_patch env of
          Resolved data \<Rightarrow>
            (case r_user data of
               Some u \<Rightarrow> buildDefaults (baseProfile (Some u))
             | None \<Rightarrow>
                (case r_profile data of
                   Some profile \<Rightarrow> mergeProfileFields profile (saved st) (saved st)
                 | None \<Rightarrow> saved st))
        | Rejected error \<Rightarrow> saved st)"
    using assms fr
    by (simp add: saveProfile_def case_prod_beta Let_def savingState_def[symmetric]
          issue_def pageToast_def setUserFrom_def setUser_frame
          split: api_result.splits option.splits)
qed


lemma newRequests_append: "sent st' = sent st @ G \<Longrightarrow> newRequests st st' = G"
  by (simp add: newRequests_def)

lemma saveProfile_requests:
  "\<exists>G. list_all (\<lambda>r. \<not> isMutating r) G \<and>
       newRequests st (saveProfile env st) =
         (if fst (validateProfile st)
             \<and> fst (validateAvailability (o_username env) (o_profileUrl env) (savingState st))
             \<and> token st \<noteq> []
          then G @ [Request ''PATCH'' ''/auth/profile/'' True (profilePayload (draft st))]
          else G)"
proof -
  let ?st3 = "snd (validateAvailability (o_username env) (o_profileUrl env) (savingState st))"
  let ?G = "newRequests (savingState st) ?st3"
  note fr = lookupOnly_frame[OF validateAvailability_lookupOnly[of "savingState st"
              "o_username env" "o_profileUrl env"]]
  have g: "list_all (\<lambda>r. \<not> isMutating r) ?G" by (rule fr)
  have s3: "sent ?st3 = sent st @ ?G" using fr(10) by (simp add: savingState_frame)
  consider (invalid) "\<not> fst (validateProfile st)"
    | (blocked) "fst (validateProfile st)"
        "\<not> fst (validateAvailability (o_username env) (o_profileUrl env) (savingState st))"
    | (expired) "fst (validateProfile st)"
        "fst (validateAvailability (o_username env) (o_profileUrl env) (savingState st))"
        "token st = []"
    | (patch) "fst (validateProfile st)"
        "fst (validateAvailability (o_username env) (o_profileUrl env) (savingState st))"
        "token st \<noteq> []"
    by blast
  then show ?thesis
  proof cases
    case invalid
    moreover have "sent (snd (validateProfile st)) = sent st"
      by (simp add: validateProfile_def Let_def)
    ultimately have "sent (saveProfile env st) = sent st @ []"
      by (simp add: saveProfile_invalid)
    then have "newRequests st (saveProfile env st) = []" by (rule newRequests_append)
    with invalid show ?thesis by (intro exI[of _ "[]"]) simp
  next
    case blocked
    then have "sent (saveProfile env st) = sent st @ ?G"
      by (simp add: saveProfile_blocked s3)
    then have "newRequests st (saveProfile env st) = ?G" by (rule newRequests_append)
    with blocked g show ?thesis by (intro exI[of _ ?G]) simp
  next
    case expired
    then have "sent (saveProfile env st) = sent st @ ?G"
      by (simp add: saveProfile_expired s3 pageToast_def)
    then have "newRequests st (saveProfile env st) = ?G" by (rule newRequests_append)
    with expired g show ?thesis by (intro exI[of _ ?G]) simp
  next
    case patch
    then have "sent (saveProfile env st)
                 = sent st @ (?G @ [Request ''PATCH'' ''/auth/profile/'' True (profilePayload (draft st))])"
      by (simp add: saveProfile_sent s3)
    then have "newRequests st (saveProfile env st)
                 = ?G @ [Request ''PATCH'' ''/auth/profile/'' True (profilePayload (draft st))]"
      by (rule newRequests_append)
    with patch g show ?thesis by (intro exI[of _ ?G]) simp
  qed
qed


lemma saveProfile_draft_kept:
  assumes "\<not> (fst (validateProfile st)
             \<and> fst (validateAvailability (o_username env) (o_profileUrl env) (savingState st))
             \<and> token st \<noteq> [])"
  shows "draft (saveProfile env st) = draft st"
proof -
  note fr = lookupOnly_frame[OF validateAvailability_lookupOnly[of "savingState st"
              "o_username env" "o_profileUrl env"]]
  have d1: "draft (snd (validateProfile st)) = draft st"
    by (simp add: validateProfile_def Let_def)
  consider (invalid) "\<not> fst (validateProfile st)"
    | (blocked) "fst (validateProfile st)"
        "\<not> fst (validateAvailability (o_username env) (o_profileUrl env) (savingState st))"
    | (expired) "fst (validateProfile st)"
        "fst (validateAvailability (o_username env) (o_profileUrl env) (savingState st))"
        "token st = []"
    using assms by blast
  then show ?thesis
  proof cases
    case invalid
    then show ?thesis by (simp add: saveProfile_invalid d1)
  next
    case blocked
    then show ?thesis by (simp add: saveProfile_blocked fr savingState_frame)
  next
    case expired
    then show ?thesis by (simp add: saveProfile_expired pageToast_def fr savingState_frame)
  qed
qed

text \<open>
  Claim C5.  With the profile section active, \<open>handleSave\<close> sends a mutating request only
  if the section is dirty, local validation finds no error and neither availability
  check ends in \<open>error\<close>.  When one of these fails, no mutating request is sent and the
  draft is what it was; when the section is not dirty the state does not change at all.
  (With all three met, the request also needs a token: without one nothing is sent and the
  draft is kept; with one, exactly the profile \<open>PATCH\<close> is sent.)
\<close>

theorem profile_save_gate:
  assumes "activeSection st = Profile"
  shows "(list_ex isMutating (newRequests st (handleSave env st)) \<longrightarrow> profileSaveAllowed env st)
     \<and> (\<not> profileSaveAllowed env st \<longrightarrow>
          \<not> list_ex isMutating (newRequests st (handleSave env st))
          \<and> draft (handleSave env st) = draft st)
     \<and> (\<not> hasSectionChanges Profile st \<longrightarrow> handleSave env st = st)
     \<and> (profileSaveAllowed env st \<and> token st = [] \<longrightarrow>
          \<not> list_ex isMutating (newRequests st (handleSave env st))
          \<and> draft (handleSave env st) = draft st)
     \<and> (profileSaveAllowed env st \<and> token st \<noteq> [] \<longrightarrow>
          filter isMutating (newRequests st (handleSave env st))
            = [Request ''PATCH'' ''/auth/profile/'' True (profilePayload (draft st))])"
proof (cases "hasSectionChanges Profile st")
  case False
  then have "handleSave env st = st" using assms by (simp add: handleSave_def)
  with False show ?thesis by (simp add: profileSaveAllowed_def newRequests_def)
next
  case True
  then have hs: "handleSave env st = saveProfile env st"
    using assms by (simp add: handleSave_def)
  let ?ok = "fst (validateProfile st)
             \<and> fst (validateAvailability (o_username env) (o_profileUrl env) (savingState st))"
  have allowed: "profileSaveAllowed env st \<longleftrightarrow> ?ok"
    using True by (simp add: profileSaveAllowed_def validateProfile_fst savingState_gate)
  from saveProfile_requests[of st env] obtain G where
    g: "list_all (\<lambda>r. \<not> isMutating r) G"
    and nr: "newRequests st (saveProfile env st) =
         (if ?ok \<and> token st \<noteq> []
          then G @ [Request ''PATCH'' ''/auth/profile/'' True (profilePayload (draft st))]
          else G)"
    by auto
  have ng: "\<not> list_ex isMutating G" "filter isMutating G = []"
    using g by (simp_all add: list_all_iff list_ex_iff filter_empty_conv)
  show ?thesis
  proof (cases "?ok \<and> token st \<noteq> []")
    case True
    with nr have "newRequests st (saveProfile env st)
        = G @ [Request ''PATCH'' ''/auth/profile/'' True (profilePayload (draft st))]" by simp
    with True \<open>hasSectionChanges Profile st\<close> show ?thesis
      by (simp add: hs allowed ng)
  next
    case False
    with nr have "newRequests st (saveProfile env st) = G" by simp
    moreover from False have "draft (saveProfile env st) = draft st"
      by (intro saveProfile_draft_kept) simp
    ultimately show ?thesis using False \<open>hasSectionChanges Profile st\<close>
      by (auto simp: hs allowed ng)
  qed
qed














section \<open>Verification: saving, on the sample states\<close>

lemma mika_eval: "trim ''mika'' = ''mika''" "toLowerCase ''mika'' = ''mika''"
  "test usernamePattern ''mika''" "trim ''Mika Draft'' = ''Mika Draft''"
  "trim ''Mika Franco'' = ''Mika Franco''"
  by (simp_all add: trim_def isWhiteSpace_def toLowerCase_def lowerChar_def
        usernamePattern_spec spec_handle_def isLetter_def isDigit_def)

lemma examplePage_fields:
  "token examplePage = ''t0k''" "saved examplePage = exampleValues"
  "draft examplePage = exampleValues" "activeSection examplePage = Profile"
  by (simp_all add: examplePage_def)

lemma renamedPage_fields:
  "token renamedPage = ''t0k''" "saved renamedPage = exampleValues"
  "draft renamedPage = exampleValues\<lparr>displayName := ''Mika Draft''\<rparr>"
  "activeSection renamedPage = Profile"
  by (simp_all add: renamedPage_def examplePage_def)

lemma renamedPage_allowed: "profileSaveAllowed env renamedPage"
proof -
  have d: "hasSectionChanges Profile renamedPage"
    by (simp add: hasSectionChanges_Profile renamedPage_fields exampleValues_def)
  have e: "profileErrors (snd (validateProfile renamedPage)) = []"
    by (simp add: validateProfile_def Let_def renamedPage_fields exampleValues_def mika_eval)
  have u: "checkAvailability_begin f ''mika'' renamedPage
             = (Done Success, setAvailability f Success renamedPage)" for f
    by (rule begin_unchanged)
       (simp_all add: mika_eval savedHandle_def renamedPage_fields exampleValues_def)
  show ?thesis
    by (simp add: profileSaveAllowed_def d e checkAvailability_status phaseStatus_def)
       (simp add: renamedPage_fields exampleValues_def u)
qed

theorem profile_save_gate_witness:
  "filter isMutating (newRequests renamedPage (handleSave exampleOutcomes renamedPage))
     = [Request ''PATCH'' ''/auth/profile/'' True (profilePayload (draft renamedPage))]
   \<and> handleSave exampleOutcomes examplePage = examplePage"
proof -
  have c: "\<not> hasSectionChanges Profile examplePage"
    by (simp add: hasSectionChanges_Profile examplePage_fields)
  from profile_save_gate[of renamedPage exampleOutcomes]
       profile_save_gate[of examplePage exampleOutcomes] renamedPage_allowed c
  show ?thesis by (simp add: renamedPage_fields examplePage_fields)
qed



section \<open>Verification: superseded lookups\<close>

lemma begin_awaiting_state:
  assumes "fst (checkAvailability_begin f v st) = Awaiting n"
  shows "n = availabilityRequestRef st f + 1"
    and "availabilityRequestRef (snd (checkAvailability_begin f v st)) f = n"
    and "availability (snd (checkAvailability_begin f v st)) = availability st"
  using assms
  by (auto simp: checkAvailability_begin_def Let_def setAvailability_def split: if_splits)

text \<open>
  Among calls that do reach the lookup, the last one wins.  When two calls for the same
  field both issue a lookup, the second carries the next sequence number; the answer to
  the first, arriving after the second call, changes nothing, and in whichever order the
  two answers arrive the status committed at the end is the one of the second lookup.
\<close>

theorem later_lookup_wins:
  assumes first: "fst (checkAvailability_begin f v1 st) = Awaiting n1"
      and second: "fst (checkAvailability_begin f v2 (snd (checkAvailability_begin f v1 st)))
                     = Awaiting n2"
  shows "n2 = n1 + 1
     \<and> foldl avail_step st [Invoke f v1, Invoke f v2, Arrive f n1 o1]
         = foldl avail_step st [Invoke f v1, Invoke f v2]
     \<and> availability
         (foldl avail_step st [Invoke f v1, Invoke f v2, Arrive f n1 o1, Arrive f n2 o2]) f
         = outcomeStatus o2
     \<and> availability
         (foldl avail_step st [Invoke f v1, Invoke f v2, Arrive f n2 o2, Arrive f n1 o1]) f
         = outcomeStatus o2"
proof -
  define st1 where "st1 = snd (checkAvailability_begin f v1 st)"
  define st2 where "st2 = snd (checkAvailability_begin f v2 st1)"
  have r1: "availabilityRequestRef st1 f = n1"
    unfolding st1_def by (rule begin_awaiting_state(2)[OF first])
  have n2: "n2 = n1 + 1"
    using begin_awaiting_state(1)[OF second] r1 by (simp add: st1_def)
  have r2: "availabilityRequestRef st2 f = n2"
    unfolding st2_def st1_def by (rule begin_awaiting_state(2)[OF second])
  have stale: "checkAvailability_resume f n1 o1 st2 = (Neutral, st2)"
    by (rule resume_stale) (simp add: r2 n2)
  have cur: "checkAvailability_resume f n2 o2 st2
               = (outcomeStatus o2, setAvailability f (outcomeStatus o2) st2)"
    by (rule resume_current[OF r2])
  have r3: "availabilityRequestRef (setAvailability f (outcomeStatus o2) st2) f \<noteq> n1"
    by (simp add: setAvailability_def r2 n2)
  have stale': "checkAvailability_resume f n1 o1 (setAvailability f (outcomeStatus o2) st2)
                  = (Neutral, setAvailability f (outcomeStatus o2) st2)"
    by (rule resume_stale[OF r3])
  have rest: "foldl avail_step st [Invoke f v1, Invoke f v2, Arrive f n1 o1]
         = foldl avail_step st [Invoke f v1, Invoke f v2]
     \<and> availability
         (foldl avail_step st [Invoke f v1, Invoke f v2, Arrive f n1 o1, Arrive f n2 o2]) f
         = outcomeStatus o2
     \<and> availability
         (foldl avail_step st [Invoke f v1, Invoke f v2, Arrive f n2 o2, Arrive f n1 o1]) f
         = outcomeStatus o2"
    by (simp add: st1_def[symmetric] st2_def[symmetric] stale cur stale')
       (simp add: setAvailability_def)
  from n2 rest show ?thesis by blast
qed


lemma ali_eval: "trim ''ali'' = ''ali''" "toLowerCase ''ali'' = ''ali''"
  "test usernamePattern ''ali''"
  by (simp_all add: trim_def isWhiteSpace_def toLowerCase_def lowerChar_def
        usernamePattern_spec spec_handle_def isLetter_def isDigit_def)

theorem later_lookup_wins_witness:
  "availability
     (foldl avail_step examplePage
        [Invoke Username ''ali'', Invoke Username ''alice'',
         Arrive Username 2 (Resolved (Some \<lparr>available = Some True\<rparr>)),
         Arrive Username 1 (Resolved (Some \<lparr>available = Some False\<rparr>))])
     Username = Success"
proof -
  define st1 where "st1 = snd (checkAvailability_begin Username ''ali'' examplePage)"
  have tok: "token examplePage \<noteq> []" by (simp add: examplePage_def)
  have b1: "checkAvailability_begin Username ''ali'' examplePage
          = (Awaiting (availabilityRequestRef examplePage Username + 1),
             examplePage\<lparr>availabilityRequestRef :=
                  (availabilityRequestRef examplePage)
                    (Username := availabilityRequestRef examplePage Username + 1),
                sent := sent examplePage
                  @ [Request ''GET'' (lookupEndpoint Username (trim ''ali'')) True []]\<rparr>)"
    by (rule begin_lookup)
       (simp_all add: ali_eval example_saved_username tok RESERVED_HANDLES_def)
  have r0: "availabilityRequestRef examplePage Username = 0" by (simp add: examplePage_def)
  have first: "fst (checkAvailability_begin Username ''ali'' examplePage) = Awaiting 1"
    by (simp add: b1 r0)
  have st1: "availabilityRequestRef st1 Username = 1" "token st1 \<noteq> []"
       "savedHandle Username st1 = savedHandle Username examplePage"
    by (simp_all add: st1_def b1 savedHandle_frame r0 tok)
  have "checkAvailability_begin Username ''alice'' st1
          = (Awaiting (availabilityRequestRef st1 Username + 1),
             st1\<lparr>availabilityRequestRef :=
                  (availabilityRequestRef st1)
                    (Username := availabilityRequestRef st1 Username + 1),
                sent := sent st1
                  @ [Request ''GET'' (lookupEndpoint Username (trim ''alice'')) True []]\<rparr>)"
    by (rule begin_lookup)
       (simp_all add: alice_trim alice_handle alice_lower st1 example_saved_username
          RESERVED_HANDLES_def)
  then have second:
    "fst (checkAvailability_begin Username ''alice''
            (snd (checkAvailability_begin Username ''ali'' examplePage))) = Awaiting 2"
    by (simp add: st1_def[symmetric] st1)
  from later_lookup_wins[OF first second,
         of "Resolved (Some \<lparr>available = Some False\<rparr>)"
            "Resolved (Some \<lparr>available = Some True\<rparr>)"]
  show ?thesis by (simp add: outcomeStatus_def)
qed

end
